theory Spec2Isabelle
  imports Complex_Main "HOL-Library.Multiset"
begin

text \<open>
  A model of the Go program \<^verbatim>\<open>main.go\<close>, which asks five exchanges for the price of
  Ethereum in US dollars, each in a goroutine of its own, averages the prices it got,
  and converts the average to Australian dollars with a sixth request.

  The functions of the program keep their names: \<^verbatim>\<open>NewAPI\<close>, \<^verbatim>\<open>Name\<close>,
  \<^verbatim>\<open>FetchPrice\<close> (lines 60-89), \<^verbatim>\<open>parseResponse\<close> (95-157),
  \<^verbatim>\<open>calculateAverageAndConvertToAUD\<close> (160-205) and \<^verbatim>\<open>fetchAndCalculatePrice\<close>
  (211-252). What they get from outside is an argument: the reply to an HTTP request,
  the body of a reply as the JSON document it holds, and the choices of the Go runtime
  (the order of a map, the order in which goroutines run). The library functions they
  call are modelled first: float64 arithmetic, \<^verbatim>\<open>strconv.ParseFloat\<close> and the decoding
  of \<^verbatim>\<open>encoding/json\<close> into the types the program declares. The lines the program
  prints, and the command-line loop of \<^verbatim>\<open>main\<close>, are left out.
\<close>

section \<open>Go's float64\<close>

text \<open>
  The program computes with Go's \<^verbatim>\<open>float64\<close>: IEEE 754 binary64 with rounding to
  nearest, ties to even. A value is a NaN (the program never looks at a payload), an
  infinity with its sign, or a finite number \<open>Fin s m e\<close> of value
  \<open>(-1)^s * m * 2^e\<close> with a magnitude \<open>0 \<le> m\<close>. Every operation below returns the
  canonical form: \<open>0 \<le> m < 2^53\<close>,
  \<open>-1074 \<le> e \<le> 971\<close>, and \<open>2^52 \<le> m\<close> unless \<open>e = -1074\<close> (subnormals and the two
  zeros). The sign is \<open>True\<close> for negative.
\<close>

datatype float64 = NaN | Infty bool | Fin bool int int

text \<open>
  The number of binary digits of a positive integer: \<open>bitlen n = k\<close> iff
  \<open>2^(k-1) \<le> n < 2^k\<close>; and the powers of two with an integer exponent (\<open>1\<close> for a
  negative one).
\<close>

function bitlen :: "int \<Rightarrow> int" where
  "bitlen n = (if n \<le> 0 then 0 else 1 + bitlen (n div 2))"
  by pat_completeness auto
termination
  by (relation "measure nat") auto

declare bitlen.simps [simp del]

function pow2 :: "int \<Rightarrow> int" where
  "pow2 x = (if x \<le> 0 then 1 else 2 * pow2 (x - 1))"
  by pat_completeness auto
termination
  by (relation "measure nat") auto

declare pow2.simps [simp del]

text \<open>
  \<open>round_ratio s n d x\<close> is the float64 nearest to \<open>(-1)^s * (n / d) * 2^x\<close> (for \<open>d > 0\<close>),
  ties to even, overflowing to an infinity. \<open>l\<close> is the binary exponent of the ratio
  (\<open>2^l \<le> N/D < 2^(l+1)\<close>), \<open>e\<close> the exponent of the last place of the result, \<open>k\<close> and
  \<open>r\<close> the quotient and the remainder of the ratio in units of \<open>2^e\<close>.
\<close>

definition round_ratio :: "bool \<Rightarrow> int \<Rightarrow> int \<Rightarrow> int \<Rightarrow> float64" where
  "round_ratio s n d x =
     (if n = 0 then Fin s 0 (-1074)
      else
        let N = n * pow2 x;
            D = d * pow2 (- x);
            l0 = bitlen N - bitlen D;
            l = (if D * pow2 l0 \<le> N * pow2 (- l0) then l0 else l0 - 1);
            e = max (l - 52) (-1074);
            N' = N * pow2 (- e);
            D' = D * pow2 e;
            k = N' div D';
            r = N' mod D';
            m = (if 2 * r < D' then k
                 else if D' < 2 * r then k + 1
                 else if even k then k else k + 1);
            m' = (if m = pow2 53 then pow2 52 else m);
            e' = (if m = pow2 53 then e + 1 else e)
        in if 971 < e' then Infty s else Fin s m' e')"

definition fzero :: float64 where
  "fzero = Fin False 0 (-1074)"

text \<open>Go's conversion \<^verbatim>\<open>float64(i)\<close> of an integer.\<close>

definition float64_of_int :: "int \<Rightarrow> float64" where
  "float64_of_int i = round_ratio (i < 0) \<bar>i\<bar> 1 0"

text \<open>The signed mantissa of a finite number.\<close>

definition smant :: "bool \<Rightarrow> int \<Rightarrow> int" where
  "smant s m = (if s then - m else m)"

text \<open>
  Addition. The exact sum of two finite numbers is an integer multiple of \<open>2^e\<close> for
  the smaller exponent \<open>e\<close>; an exact zero sum is \<open>-0\<close> only when both operands are
  negative (zeros), \<open>+0\<close> otherwise.
\<close>

fun fadd :: "float64 \<Rightarrow> float64 \<Rightarrow> float64" where
  "fadd NaN _ = NaN"
| "fadd _ NaN = NaN"
| "fadd (Infty s) (Infty t) = (if s = t then Infty s else NaN)"
| "fadd (Infty s) (Fin _ _ _) = Infty s"
| "fadd (Fin _ _ _) (Infty t) = Infty t"
| "fadd (Fin s1 m1 e1) (Fin s2 m2 e2) =
     (let e = min e1 e2;
          i = smant s1 m1 * pow2 (e1 - e) + smant s2 m2 * pow2 (e2 - e)
      in if i = 0 then Fin (s1 \<and> s2) 0 (-1074)
         else round_ratio (i < 0) \<bar>i\<bar> 1 e)"

fun fmul :: "float64 \<Rightarrow> float64 \<Rightarrow> float64" where
  "fmul NaN _ = NaN"
| "fmul _ NaN = NaN"
| "fmul (Infty s) (Infty t) = Infty (s \<noteq> t)"
| "fmul (Infty s) (Fin t m _) = (if m = 0 then NaN else Infty (s \<noteq> t))"
| "fmul (Fin s m _) (Infty t) = (if m = 0 then NaN else Infty (s \<noteq> t))"
| "fmul (Fin s1 m1 e1) (Fin s2 m2 e2) = round_ratio (s1 \<noteq> s2) (m1 * m2) 1 (e1 + e2)"

fun fdiv :: "float64 \<Rightarrow> float64 \<Rightarrow> float64" where
  "fdiv NaN _ = NaN"
| "fdiv _ NaN = NaN"
| "fdiv (Infty s) (Infty t) = NaN"
| "fdiv (Infty s) (Fin t _ _) = Infty (s \<noteq> t)"
| "fdiv (Fin s _ _) (Infty t) = Fin (s \<noteq> t) 0 (-1074)"
| "fdiv (Fin s1 m1 e1) (Fin s2 m2 e2) =
     (if m2 = 0 then (if m1 = 0 then NaN else Infty (s1 \<noteq> s2))
      else round_ratio (s1 \<noteq> s2) m1 m2 (e1 - e2))"

text \<open>
  The comparisons \<^verbatim>\<open><=\<close> and \<^verbatim>\<open>==\<close>: false whenever an operand is a NaN; the two
  zeros are equal.
\<close>

fun fle :: "float64 \<Rightarrow> float64 \<Rightarrow> bool" where
  "fle NaN _ = False"
| "fle _ NaN = False"
| "fle (Infty s) (Infty t) = (s \<or> \<not> t)"
| "fle (Infty s) (Fin _ _ _) = s"
| "fle (Fin _ _ _) (Infty t) = (\<not> t)"
| "fle (Fin s1 m1 e1) (Fin s2 m2 e2) =
     (let e = min e1 e2
      in smant s1 m1 * pow2 (e1 - e) \<le> smant s2 m2 * pow2 (e2 - e))"

fun feq :: "float64 \<Rightarrow> float64 \<Rightarrow> bool" where
  "feq NaN _ = False"
| "feq _ NaN = False"
| "feq (Infty s) (Infty t) = (s = t)"
| "feq (Infty _) (Fin _ _ _) = False"
| "feq (Fin _ _ _) (Infty _) = False"
| "feq (Fin s1 m1 e1) (Fin s2 m2 e2) =
     (let e = min e1 e2
      in smant s1 m1 * pow2 (e1 - e) = smant s2 m2 * pow2 (e2 - e))"


section \<open>Errors and results\<close>

text \<open>
  The errors of \<^verbatim>\<open>parseResponse\<close> (those of \<^verbatim>\<open>encoding/json\<close> and \<^verbatim>\<open>strconv\<close>,
  and its own two), and the errors \<^verbatim>\<open>FetchPrice\<close> and
  \<^verbatim>\<open>calculateAverageAndConvertToAUD\<close> build with \<^verbatim>\<open>fmt.Errorf\<close>, one constructor
  per message.
\<close>

datatype parse_error =
    SyntaxError
  | UnmarshalTypeError
  | BodyReadError
  | ErrSyntax
  | ErrRange
  | InvalidDataLength
  | UnknownAPI string

datatype error =
    RequestFailed
  | NonOKStatus int
  | ReadingBodyFailed
  | ParsingFailed parse_error
  | InvalidPrice float64
  | NoValidPrices
  | GetRatesFailed
  | DecodeRatesFailed parse_error
  | InvalidExchangeRates

text \<open>
  A call returns a value, returns an error, or panics (an index out of range); a panic
  in any goroutine ends the program.
\<close>

datatype ('e, 'a) outcome = Ok 'a | Err 'e | Panic

section \<open>strconv.ParseFloat\<close>

text \<open>
  \<^verbatim>\<open>strconv.ParseFloat(s, 64)\<close>, after the library's \<^verbatim>\<open>special\<close>, \<^verbatim>\<open>readFloat\<close> and
  \<^verbatim>\<open>underscoreOK\<close>: the names of the infinities and of NaN in any case, decimal and
  hexadecimal literals, underscores between digits. The result is the float64 nearest
  to the literal's exact value; a literal that rounds to an infinity is a range error.
\<close>

definition ord :: "char \<Rightarrow> int" where
  "ord c = of_char c"

definition lower :: "char \<Rightarrow> char" where
  "lower c = (if 65 \<le> ord c \<and> ord c \<le> 90 then char_of (ord c + 32) else c)"

definition is_digit :: "char \<Rightarrow> bool" where
  "is_digit c = (48 \<le> ord c \<and> ord c \<le> 57)"

definition is_hex_letter :: "char \<Rightarrow> bool" where
  "is_hex_letter c = (97 \<le> ord (lower c) \<and> ord (lower c) \<le> 102)"

fun commonPrefixLenIgnoreCase :: "string \<Rightarrow> string \<Rightarrow> nat" where
  "commonPrefixLenIgnoreCase (c # s) (p # prefix) =
     (if lower c = p then Suc (commonPrefixLenIgnoreCase s prefix) else 0)"
| "commonPrefixLenIgnoreCase _ _ = 0"

definition special_inf :: "bool \<Rightarrow> nat \<Rightarrow> string \<Rightarrow> (float64 \<times> nat) option" where
  "special_inf neg nsign s =
     (let n0 = commonPrefixLenIgnoreCase s ''infinity'';
          n = (if 3 < n0 \<and> n0 < 8 then 3 else n0)
      in if n = 3 \<or> n = 8 then Some (Infty neg, nsign + n) else None)"

fun special :: "string \<Rightarrow> (float64 \<times> nat) option" where
  "special [] = None"
| "special (c # s) =
     (if c = CHR ''+'' then special_inf False 1 s
      else if c = CHR ''-'' then special_inf True 1 s
      else if c = CHR ''i'' \<or> c = CHR ''I'' then special_inf False 0 (c # s)
      else if c = CHR ''n'' \<or> c = CHR ''N'' then
        (if commonPrefixLenIgnoreCase (c # s) ''nan'' = 3 then Some (NaN, 3) else None)
      else None)"

text \<open>
  The digit loop of \<^verbatim>\<open>readFloat\<close>. The library keeps the first 19 digits of the
  mantissa and a flag for the rest, and then rounds correctly from all the digits; the
  model keeps every digit. \<open>nd\<close> counts the digits after the leading zeros, \<open>dp\<close> is the
  position of the point.
\<close>

record digits =
  mantissa :: int
  nd :: int
  dp :: int
  sawdot :: bool
  sawdigits :: bool
  underscores :: bool

fun read_digits :: "bool \<Rightarrow> string \<Rightarrow> digits \<Rightarrow> digits \<times> string" where
  "read_digits hex [] st = (st, [])"
| "read_digits hex (c # s) st =
     (if c = CHR ''_'' then read_digits hex s (st\<lparr>underscores := True\<rparr>)
      else if c = CHR ''.'' then
        (if sawdot st then (st, c # s)
         else read_digits hex s (st\<lparr>sawdot := True, dp := nd st\<rparr>))
      else if is_digit c then
        (if c = CHR ''0'' \<and> nd st = 0
         then read_digits hex s (st\<lparr>sawdigits := True, dp := dp st - 1\<rparr>)
         else read_digits hex s
                (st\<lparr>sawdigits := True, nd := nd st + 1,
                    mantissa := mantissa st * (if hex then 16 else 10) + (ord c - 48)\<rparr>))
      else if hex \<and> is_hex_letter c then
        read_digits hex s
          (st\<lparr>sawdigits := True, nd := nd st + 1,
              mantissa := mantissa st * 16 + (ord (lower c) - 97 + 10)\<rparr>)
      else (st, c # s))"

text \<open>The digits of the exponent: \<open>e\<close> stops growing at 10000, as in the library.\<close>

fun read_exp :: "string \<Rightarrow> int \<Rightarrow> bool \<Rightarrow> int \<times> bool \<times> string" where
  "read_exp [] e u = (e, u, [])"
| "read_exp (c # s) e u =
     (if c = CHR ''_'' then read_exp s e True
      else if is_digit c then read_exp s (if e < 10000 then e * 10 + (ord c - 48) else e) u
      else (e, u, c # s))"

text \<open>
  \<^verbatim>\<open>underscoreOK\<close>: an underscore stands between two digits, or between a base prefix
  and a digit. \<open>saw\<close> is the class of the last character: \<open>CHR ''0''\<close> for a digit or the
  prefix, \<open>CHR ''_''\<close>, \<open>CHR ''!''\<close> for anything else, \<open>CHR ''^''\<close> at the start.
\<close>

fun underscore_loop :: "bool \<Rightarrow> char \<Rightarrow> string \<Rightarrow> bool" where
  "underscore_loop hex saw [] = (saw \<noteq> CHR ''_'')"
| "underscore_loop hex saw (c # s) =
     (if is_digit c \<or> hex \<and> is_hex_letter c then underscore_loop hex (CHR ''0'') s
      else if c = CHR ''_'' then
        (if saw \<noteq> CHR ''0'' then False else underscore_loop hex (CHR ''_'') s)
      else if saw = CHR ''_'' then False
      else underscore_loop hex (CHR ''!'') s)"

definition underscoreOK :: "string \<Rightarrow> bool" where
  "underscoreOK s0 =
     (let s = (case s0 of c # r \<Rightarrow> if c = CHR ''-'' \<or> c = CHR ''+'' then r else s0 | [] \<Rightarrow> s0)
      in case s of
           a # b # r \<Rightarrow>
             if a = CHR ''0'' \<and> (lower b = CHR ''b'' \<or> lower b = CHR ''o'' \<or> lower b = CHR ''x'')
             then underscore_loop (lower b = CHR ''x'') (CHR ''0'') r
             else underscore_loop False (CHR ''^'') s
         | _ \<Rightarrow> underscore_loop False (CHR ''^'') s)"

text \<open>
  \<^verbatim>\<open>readFloat\<close>: the sign, the base prefix, the digits, the exponent. It returns the
  sign, the mantissa, the exponent (decimal, or binary for a hexadecimal literal), the
  base, and the text it did not read; \<open>None\<close> where the library returns \<^verbatim>\<open>ok = false\<close>.
\<close>

definition readFloat :: "string \<Rightarrow> (bool \<times> int \<times> int \<times> bool \<times> string) option" where
  "readFloat s0 =
     (case s0 of
        [] \<Rightarrow> None
      | c0 # r0 \<Rightarrow>
          let neg = (c0 = CHR ''-'');
              s1 = (if c0 = CHR ''+'' \<or> c0 = CHR ''-'' then r0 else s0);
              hex = (case s1 of a # b # _ # _ \<Rightarrow> a = CHR ''0'' \<and> lower b = CHR ''x'' | _ \<Rightarrow> False);
              s2 = (if hex then drop 2 s1 else s1);
              (st, s3) = read_digits hex s2
                           \<lparr>mantissa = 0, nd = 0, dp = 0, sawdot = False, sawdigits = False,
                            underscores = False\<rparr>;
              dp1 = (if sawdot st then dp st else nd st);
              dp2 = (if hex then dp1 * 4 else dp1);
              ndMant = (if hex then nd st * 4 else nd st);
              expChar = (if hex then CHR ''p'' else CHR ''e'')
          in if \<not> sawdigits st then None
             else
               (case (case s3 of
                        c # s4 \<Rightarrow>
                          if lower c = expChar then
                            (case s4 of
                               [] \<Rightarrow> None
                             | d # s5 \<Rightarrow>
                                 let esign = (if d = CHR ''-'' then - 1 else 1);
                                     s6 = (if d = CHR ''+'' \<or> d = CHR ''-'' then s5 else s4)
                                 in (case s6 of
                                       [] \<Rightarrow> None
                                     | f # _ \<Rightarrow>
                                         if \<not> is_digit f then None
                                         else
                                           let (e, u, s7) = read_exp s6 0 (underscores st)
                                           in Some (dp2 + e * esign, u, s7)))
                          else if hex then None
                          else Some (dp2, underscores st, s3)
                      | [] \<Rightarrow> if hex then None else Some (dp2, underscores st, s3)) of
                  None \<Rightarrow> None
                | Some (dp3, u, rest) \<Rightarrow>
                    let ex = (if mantissa st \<noteq> 0 then dp3 - ndMant else 0)
                    in if u \<and> \<not> underscoreOK (take (length s0 - length rest) s0) then None
                       else Some (neg, mantissa st, ex, hex, rest)))"

function pow10 :: "int \<Rightarrow> int" where
  "pow10 x = (if x \<le> 0 then 1 else 10 * pow10 (x - 1))"
  by pat_completeness auto
termination
  by (relation "measure nat") auto

declare pow10.simps [simp del]

text \<open>The float64 nearest to \<open>(-1)^s * m * 10^k\<close>.\<close>

definition dec_to_float64 :: "bool \<Rightarrow> int \<Rightarrow> int \<Rightarrow> float64" where
  "dec_to_float64 s m k = round_ratio s (m * pow10 k) (pow10 (- k)) 0"

definition ParseFloat :: "string \<Rightarrow> parse_error + float64" where
  "ParseFloat s =
     (case special s of
        Some (f, n) \<Rightarrow> if n = length s then Inr f else Inl ErrSyntax
      | None \<Rightarrow>
          (case readFloat s of
             None \<Rightarrow> Inl ErrSyntax
           | Some (neg, m, ex, hex, rest) \<Rightarrow>
               if rest \<noteq> [] then Inl ErrSyntax
               else
                 (case (if hex then round_ratio neg m 1 ex else dec_to_float64 neg m ex) of
                    Infty _ \<Rightarrow> Inl ErrRange
                  | f \<Rightarrow> Inr f)))"


section \<open>JSON documents and encoding/json\<close>

text \<open>
  A response body is modelled after the JSON lexer: the document as a tree, or
  \<open>Malformed\<close> for a body that is not one JSON value. A number keeps its literal: sign,
  digits and decimal exponent, \<open>JNum s m k\<close> for \<open>(-1)^s * m * 10^k\<close> (so \<^verbatim>\<open>3000.5\<close> is
  \<open>JNum False 30005 (-1)\<close>). An object keeps its members in the order of the text,
  repeated names included.
\<close>

datatype json =
    JNull
  | JBool bool
  | JNum bool int int
  | JStr string
  | JArr "json list"
  | JObj "(string \<times> json) list"

datatype doc = Malformed | Json json

text \<open>
  What \<^verbatim>\<open>json.Unmarshal\<close> does with a syntactically valid document, for the Go types
  \<^verbatim>\<open>parseResponse\<close> decodes into: \<^verbatim>\<open>null\<close> leaves a number, a string or a struct as it
  is and sets a map or a slice to nil; a value of another JSON type is an
  \<^verbatim>\<open>UnmarshalTypeError\<close>, returned after the rest has been decoded; a number that does
  not fit a float64 is one too; members no struct field matches are skipped; a member
  that comes again is decoded again, into a fresh element for a map and in place for a
  struct field.
\<close>

definition unmarshal_float64 :: "json \<Rightarrow> float64 \<Rightarrow> parse_error + float64" where
  "unmarshal_float64 j cur =
     (case j of
        JNull \<Rightarrow> Inr cur
      | JNum s m k \<Rightarrow>
          (case dec_to_float64 s m k of Infty _ \<Rightarrow> Inl UnmarshalTypeError | f \<Rightarrow> Inr f)
      | _ \<Rightarrow> Inl UnmarshalTypeError)"

definition unmarshal_string :: "json \<Rightarrow> string \<Rightarrow> parse_error + string" where
  "unmarshal_string j cur =
     (case j of JNull \<Rightarrow> Inr cur | JStr s \<Rightarrow> Inr s | _ \<Rightarrow> Inl UnmarshalTypeError)"

text \<open>
  A Go map as an association list with one entry per key: \<open>assign\<close> is \<^verbatim>\<open>m[k] = v\<close>,
  \<open>index\<close> is \<^verbatim>\<open>m[k]\<close> with the zero value for a missing key.
\<close>

fun assign :: "'k \<Rightarrow> 'v \<Rightarrow> ('k \<times> 'v) list \<Rightarrow> ('k \<times> 'v) list" where
  "assign k v [] = [(k, v)]"
| "assign k v ((k', v') # m) = (if k = k' then (k, v) # m else (k', v') # assign k v m)"

definition index :: "('k \<times> 'v) list \<Rightarrow> 'k \<Rightarrow> 'v \<Rightarrow> 'v" where
  "index m k zero = (case map_of m k of None \<Rightarrow> zero | Some v \<Rightarrow> v)"

text \<open>
  The members of an object decoded one after the other into a map: each value into a
  fresh element \<open>zero\<close>, stored under its key.
\<close>

fun unmarshal_members ::
  "(json \<Rightarrow> 'v \<Rightarrow> parse_error + 'v) \<Rightarrow> 'v \<Rightarrow> (string \<times> json) list \<Rightarrow> (string \<times> 'v) list \<Rightarrow>
   parse_error + (string \<times> 'v) list" where
  "unmarshal_members dec zero [] m = Inr m"
| "unmarshal_members dec zero ((k, j) # kvs) m =
     (case dec j zero of
        Inl e \<Rightarrow> Inl e
      | Inr v \<Rightarrow> unmarshal_members dec zero kvs (assign k v m))"

definition unmarshal_map ::
  "(json \<Rightarrow> 'v \<Rightarrow> parse_error + 'v) \<Rightarrow> 'v \<Rightarrow> json \<Rightarrow> (string \<times> 'v) list \<Rightarrow>
   parse_error + (string \<times> 'v) list" where
  "unmarshal_map dec zero j cur =
     (case j of
        JNull \<Rightarrow> Inr []
      | JObj kvs \<Rightarrow> unmarshal_members dec zero kvs cur
      | _ \<Rightarrow> Inl UnmarshalTypeError)"

text \<open>
  A Go slice is its array and its length: \<open>(arr, n)\<close>, the elements being \<open>take n arr\<close>;
  what \<open>arr\<close> holds past \<open>n\<close> is what an earlier, longer value left there. The elements
  of a JSON array are decoded into a slice in place: element \<open>i\<close> over what the array
  holds at \<open>i\<close> (the zero value past its end); the length becomes the number of
  elements; an empty array gives a new empty slice, \<^verbatim>\<open>null\<close> the nil slice.
\<close>

type_synonym 'v slice = "'v list \<times> nat"

fun unmarshal_elems ::
  "(json \<Rightarrow> 'v \<Rightarrow> parse_error + 'v) \<Rightarrow> 'v \<Rightarrow> json list \<Rightarrow> 'v list \<Rightarrow> parse_error + 'v list" where
  "unmarshal_elems dec zero [] arr = Inr []"
| "unmarshal_elems dec zero (j # js) arr =
     (case dec j (case arr of [] \<Rightarrow> zero | a # _ \<Rightarrow> a) of
        Inl e \<Rightarrow> Inl e
      | Inr v \<Rightarrow>
          (case unmarshal_elems dec zero js (tl arr) of
             Inl e \<Rightarrow> Inl e
           | Inr vs \<Rightarrow> Inr (v # vs)))"

definition unmarshal_slice ::
  "(json \<Rightarrow> 'v \<Rightarrow> parse_error + 'v) \<Rightarrow> 'v \<Rightarrow> json \<Rightarrow> 'v slice \<Rightarrow> parse_error + 'v slice" where
  "unmarshal_slice dec zero j cur =
     (case j of
        JNull \<Rightarrow> Inr ([], 0)
      | JArr js \<Rightarrow>
          (case unmarshal_elems dec zero js (fst cur) of
             Inl e \<Rightarrow> Inl e
           | Inr vs \<Rightarrow>
               Inr (if js = [] then ([], 0) else (vs @ drop (length js) (fst cur), length js)))
      | _ \<Rightarrow> Inl UnmarshalTypeError)"

text \<open>
  A member's name matches a struct field's when it is the field's name, or equal to it
  under Unicode case folding: the ASCII letters in either case, and the two other
  characters that fold to an ASCII letter, U+017F (to \<open>s\<close>) and U+212A (to \<open>k\<close>), which
  are the bytes C5 BF and E2 84 AA.
\<close>

definition upper :: "char \<Rightarrow> char" where
  "upper c = (if 97 \<le> ord c \<and> ord c \<le> 122 then char_of (ord c - 32) else c)"

fun foldName :: "string \<Rightarrow> string" where
  "foldName (a # b # c # s) =
     (if ord a = 226 \<and> ord b = 132 \<and> ord c = 170 then CHR ''K'' # foldName s
      else if ord a = 197 \<and> ord b = 191 then CHR ''S'' # foldName (c # s)
      else upper a # foldName (b # c # s))"
| "foldName [a, b] =
     (if ord a = 197 \<and> ord b = 191 then [CHR ''S''] else [upper a, upper b])"
| "foldName [a] = [upper a]"
| "foldName [] = []"

definition field_match :: "string \<Rightarrow> string \<Rightarrow> bool" where
  "field_match key name = (key = name \<or> foldName key = foldName name)"

text \<open>
  The members of an object decoded into a struct with one field \<open>name\<close>: the members
  the field matches are decoded into it one after the other, the others are skipped.
\<close>

fun unmarshal_field ::
  "string \<Rightarrow> (json \<Rightarrow> 'v \<Rightarrow> parse_error + 'v) \<Rightarrow> (string \<times> json) list \<Rightarrow> 'v \<Rightarrow> parse_error + 'v" where
  "unmarshal_field name dec [] cur = Inr cur"
| "unmarshal_field name dec ((k, j) # kvs) cur =
     (if field_match k name then
        (case dec j cur of
           Inl e \<Rightarrow> Inl e
         | Inr v \<Rightarrow> unmarshal_field name dec kvs v)
      else unmarshal_field name dec kvs cur)"

definition unmarshal_struct ::
  "string \<Rightarrow> (json \<Rightarrow> 'v \<Rightarrow> parse_error + 'v) \<Rightarrow> json \<Rightarrow> 'v \<Rightarrow> parse_error + 'v" where
  "unmarshal_struct name dec j cur =
     (case j of
        JNull \<Rightarrow> Inr cur
      | JObj kvs \<Rightarrow> unmarshal_field name dec kvs cur
      | _ \<Rightarrow> Inl UnmarshalTypeError)"

text \<open>
  \<^verbatim>\<open>json.Unmarshal(body, &data)\<close> for a variable \<open>data\<close> declared just before, holding
  its zero value.
\<close>

definition Unmarshal :: "(json \<Rightarrow> 'v \<Rightarrow> parse_error + 'v) \<Rightarrow> doc \<Rightarrow> 'v \<Rightarrow> parse_error + 'v" where
  "Unmarshal dec body zero =
     (case body of Malformed \<Rightarrow> Inl SyntaxError | Json j \<Rightarrow> dec j zero)"


section \<open>The source adapters\<close>

text \<open>
  \<^verbatim>\<open>type API struct { name, url string; timeout time.Duration }\<close>, the duration in
  nanoseconds, and its constructor.
\<close>

record API =
  name :: string
  url :: string
  timeout :: int

definition NewAPI :: "string \<Rightarrow> string \<Rightarrow> API" where
  "NewAPI n u = \<lparr>name = n, url = u, timeout = 10 * 1000000000\<rparr>"

definition Name :: "API \<Rightarrow> string" where
  "Name a = name a"

text \<open>
  \<^verbatim>\<open>parseResponse(body, &price)\<close>: \<open>price\<close> is what the variable holds before the call,
  the result what it holds after a return without error. \<open>first\<close> is the runtime's
  choice in \<^verbatim>\<open>for _, v := range data.Result\<close>: Go iterates a map in no fixed order, and
  the loop body runs for the entry that comes first only. \<^verbatim>\<open>v.C[0]\<close> panics when the
  slice is empty.
\<close>

definition parseResponse :: "API \<Rightarrow> doc \<Rightarrow> float64 \<Rightarrow> nat \<Rightarrow> (parse_error, float64) outcome" where
  "parseResponse a body price first =
     (if name a = ''CoinGecko'' then
        (case Unmarshal (unmarshal_map (unmarshal_map unmarshal_float64 fzero) []) body [] of
           Inl e \<Rightarrow> Err e
         | Inr data \<Rightarrow> Ok (index (index data ''ethereum'' []) ''usd'' fzero))
      else if name a = ''Coinbase'' then
        (case Unmarshal (unmarshal_struct ''data'' (unmarshal_struct ''amount'' unmarshal_string))
                body [] of
           Inl e \<Rightarrow> Err e
         | Inr amount \<Rightarrow> (case ParseFloat amount of Inl e \<Rightarrow> Err e | Inr f \<Rightarrow> Ok f))
      else if name a = ''Bitstamp'' then
        (case Unmarshal (unmarshal_map unmarshal_string []) body [] of
           Inl e \<Rightarrow> Err e
         | Inr data \<Rightarrow>
             (case ParseFloat (index data ''last'' []) of Inl e \<Rightarrow> Err e | Inr f \<Rightarrow> Ok f))
      else if name a = ''Kraken'' then
        (case Unmarshal
                (unmarshal_struct ''result''
                   (unmarshal_map (unmarshal_struct ''c'' (unmarshal_slice unmarshal_string []))
                      ([], 0)))
                body [] of
           Inl e \<Rightarrow> Err e
         | Inr result \<Rightarrow>
             (if result = [] then Ok price
              else
                (case snd (result ! (first mod length result)) of
                   (arr, n) \<Rightarrow>
                     if n = 0 then Panic
                     else (case ParseFloat (hd arr) of Inl e \<Rightarrow> Err e | Inr f \<Rightarrow> Ok f))))
      else if name a = ''Bitfinex'' then
        (case Unmarshal (unmarshal_slice unmarshal_float64 fzero) body ([], 0) of
           Inl e \<Rightarrow> Err e
         | Inr (arr, n) \<Rightarrow> if n < 7 then Err InvalidDataLength else Ok (arr ! 6))
      else Err (UnknownAPI (name a)))"

text \<open>
  What \<^verbatim>\<open>client.Get\<close> gives: an error (no connection, a timeout), or a response with
  its status code and a body, which \<^verbatim>\<open>io.ReadAll\<close> or the JSON decoder may fail to read.
\<close>

datatype body = Unreadable | Body doc

datatype reply = GetError | Response int body

text \<open>
  \<^verbatim>\<open>FetchPrice\<close>, given the reply to its request. The variable \<open>price\<close> starts at zero.
\<close>

definition FetchPrice :: "API \<Rightarrow> reply \<Rightarrow> nat \<Rightarrow> (error, float64) outcome" where
  "FetchPrice a r first =
     (case r of
        GetError \<Rightarrow> Err RequestFailed
      | Response status b \<Rightarrow>
          if status \<noteq> 200 then Err (NonOKStatus status)
          else
            (case b of
               Unreadable \<Rightarrow> Err ReadingBodyFailed
             | Body d \<Rightarrow>
                 (case parseResponse a d fzero first of
                    Panic \<Rightarrow> Panic
                  | Err e \<Rightarrow> Err (ParsingFailed e)
                  | Ok price \<Rightarrow> if fle price fzero then Err (InvalidPrice price) else Ok price)))"

section \<open>Averaging and conversion\<close>

text \<open>
  \<^verbatim>\<open>type PriceResult struct { price float64; err error; name string }\<close>; the field
  \<^verbatim>\<open>name\<close> is \<open>source\<close> here, \<open>name\<close> being the field of \<open>API\<close>.
\<close>

record PriceResult =
  price :: float64
  err :: "error option"
  source :: string

text \<open>
  The loop of \<^verbatim>\<open>calculateAverageAndConvertToAUD\<close> over the results, on the variables
  \<^verbatim>\<open>sum\<close> and \<^verbatim>\<open>count\<close> (\<open>acc\<close> and \<open>cnt\<close> here). \<^verbatim>\<open>count\<close> is a Go \<^verbatim>\<open>int\<close>; it
  grows by one per result at most, and a slice has fewer than \<open>2^63\<close> elements, so it
  does not wrap around.
\<close>

fun average_loop :: "PriceResult list \<Rightarrow> float64 \<times> int \<Rightarrow> float64 \<times> int" where
  "average_loop [] (acc, cnt) = (acc, cnt)"
| "average_loop (result # results) (acc, cnt) =
     (if err result = None then average_loop results (fadd acc (price result), cnt + 1)
      else average_loop results (acc, cnt))"

text \<open>The first half of the function, up to \<^verbatim>\<open>averageUSD := sum / float64(count)\<close>.\<close>

definition averageUSD :: "PriceResult list \<Rightarrow> error + float64" where
  "averageUSD results =
     (case average_loop results (fzero, 0) of
        (acc, cnt) \<Rightarrow>
          if cnt = 0 then Inl NoValidPrices else Inr (fdiv acc (float64_of_int cnt)))"

text \<open>
  \<^verbatim>\<open>json.NewDecoder(resp.Body).Decode(&data)\<close>: the decoder reads the body itself, so a
  body that cannot be read is a decoding error. It decodes the first JSON value of the
  body; \<open>Malformed\<close> is a body that does not start with one.
\<close>

definition Decode :: "(json \<Rightarrow> 'v \<Rightarrow> parse_error + 'v) \<Rightarrow> body \<Rightarrow> 'v \<Rightarrow> parse_error + 'v" where
  "Decode dec b zero = (case b of Unreadable \<Rightarrow> Inl BodyReadError | Body d \<Rightarrow> Unmarshal dec d zero)"

text \<open>
  The second half, from the request for the exchange rates on, given the reply to that
  request. The status code of the response is not looked at.
\<close>

definition convertToAUD :: "float64 \<Rightarrow> reply \<Rightarrow> error + float64" where
  "convertToAUD average r =
     (case r of
        GetError \<Rightarrow> Inl GetRatesFailed
      | Response status b \<Rightarrow>
          (case Decode (unmarshal_map (unmarshal_map unmarshal_float64 fzero) []) b [] of
             Inl e \<Rightarrow> Inl (DecodeRatesFailed e)
           | Inr data \<Rightarrow>
               let ethData = index data ''ethereum'' [];
                   usdRate = index ethData ''usd'' fzero;
                   audRate = index ethData ''aud'' fzero
               in if feq usdRate fzero \<or> feq audRate fzero then Inl InvalidExchangeRates
                  else
                    let conversionRate = fdiv audRate usdRate;
                        audPrice = fmul average conversionRate
                    in Inr audPrice))"

definition calculateAverageAndConvertToAUD :: "PriceResult list \<Rightarrow> reply \<Rightarrow> error + float64" where
  "calculateAverageAndConvertToAUD results r =
     (case averageUSD results of
        Inl e \<Rightarrow> Inl e
      | Inr average \<Rightarrow> convertToAUD average r)"


section \<open>The fetch orchestrator\<close>

text \<open>
  What the program does not decide: the reply to each request (by URL), the entry a
  \<^verbatim>\<open>range\<close> over a map starts with, and the choices of the scheduler, which decide
  how the goroutines interleave.
\<close>

record world =
  get :: "string \<Rightarrow> reply"
  first :: nat
  sched :: "nat list"

text \<open>
  The goroutine started for a fetcher calls \<^verbatim>\<open>FetchPrice\<close> and sends one
  \<^verbatim>\<open>PriceResult\<close>; \<^verbatim>\<open>FetchPrice\<close> returns the price 0 with an error. \<open>None\<close> when the
  call panics. The line the goroutine prints is left out.
\<close>

definition goroutine :: "world \<Rightarrow> API \<Rightarrow> PriceResult option" where
  "goroutine w f =
     (case FetchPrice f (get w (url f)) (first w) of
        Ok p \<Rightarrow> Some \<lparr>price = p, err = None, source = Name f\<rparr>
      | Err e \<Rightarrow> Some \<lparr>price = fzero, err = Some e, source = Name f\<rparr>
      | Panic \<Rightarrow> None)"

text \<open>The fetchers of the program, and the address it asks for the exchange rates.\<close>

definition fetchers :: "API list" where
  "fetchers =
     [NewAPI ''CoinGecko'' ''https://api.coingecko.com/api/v3/simple/price?ids=ethereum&vs_currencies=usd'',
      NewAPI ''Coinbase'' ''https://api.coinbase.com/v2/prices/ETH-USD/spot'',
      NewAPI ''Bitstamp'' ''https://www.bitstamp.net/api/v2/ticker/ethusd/'',
      NewAPI ''Kraken'' ''https://api.kraken.com/0/public/Ticker?pair=ETHUSD'',
      NewAPI ''Bitfinex'' ''https://api-pub.bitfinex.com/v2/ticker/tETHUSD'']"

definition rates_url :: string where
  "rates_url = ''https://api.coingecko.com/api/v3/simple/price?ids=ethereum&vs_currencies=usd,aud''"

text \<open>
  \<^verbatim>\<open>fetchAndCalculatePrice\<close> runs as several goroutines, and what it returns depends on
  how they interleave. Its run is modelled step by step. The goroutine started for a
  fetcher is at one of these points:

    \<^item> \<open>Fetching\<close>: before \<^verbatim>\<open>f.FetchPrice()\<close> (line 227);
    \<^item> \<open>Sending r\<close>: before the send \<^verbatim>\<open>resultsChan <- r\<close> (line 228);
    \<^item> \<open>Finishing\<close>: after the send (it prints a line), before the deferred
      \<^verbatim>\<open>wg.Done()\<close>;
    \<^item> \<open>Finished\<close>: returned;
    \<^item> \<open>Panicking\<close>: it has panicked, and the deferred \<^verbatim>\<open>wg.Done()\<close> (line 226) is
      to run: a deferred call runs when the function panics as when it returns;
    \<^item> \<open>Dying\<close>: the deferred call has run; no one recovers the panic, and the
      runtime is about to end the process.

  The function itself is at one of these: in the loop that starts the goroutines
  (lines 223-239), in \<^verbatim>\<open>wg.Wait()\<close> (line 242), before \<^verbatim>\<open>close(resultsChan)\<close>
  (line 243), in the loop that reads the channel (lines 247-249), or returned with the
  value of \<^verbatim>\<open>calculateAverageAndConvertToAUD(results)\<close> (line 251).
\<close>

datatype worker = Fetching | Sending PriceResult | Finishing | Finished | Panicking | Dying

datatype stage = Spawning | Waiting | Closing | Draining | Done "error + float64"

text \<open>
  The state: where the function and its goroutines are, the buffer of the channel and
  whether it is closed, the counter of the \<^verbatim>\<open>WaitGroup\<close>, the slice \<^verbatim>\<open>results\<close>
  (\<open>collected\<close>), and whether the process has been ended by a panic.
\<close>

record state =
  main :: stage
  workers :: "worker list"
  resultsChan :: "PriceResult list"
  chanClosed :: bool
  wg :: int
  collected :: "PriceResult list"
  dead :: bool

definition init :: state where
  "init = \<lparr>main = Spawning, workers = [], resultsChan = [], chanClosed = False, wg = 0,
           collected = [], dead = False\<rparr>"

text \<open>
  The function can take a step unless it waits: \<^verbatim>\<open>wg.Wait()\<close> returns when the counter
  is 0, and a receive from the channel when the buffer holds a value or the channel
  is closed. Its steps: \<^verbatim>\<open>wg.Add(1)\<close> and the \<^verbatim>\<open>go\<close> statement for the next fetcher, or
  the end of that loop; the return of \<^verbatim>\<open>wg.Wait()\<close>; \<^verbatim>\<open>close\<close>; the receive of one
  result, appended to \<^verbatim>\<open>results\<close>, or the end of the \<^verbatim>\<open>range\<close> loop on the closed and
  empty channel, followed by the call of \<^verbatim>\<open>calculateAverageAndConvertToAUD\<close>.
\<close>

definition main_ready :: "state \<Rightarrow> bool" where
  "main_ready s =
     (case main s of
        Spawning \<Rightarrow> True
      | Waiting \<Rightarrow> wg s = 0
      | Closing \<Rightarrow> True
      | Draining \<Rightarrow> resultsChan s \<noteq> [] \<or> chanClosed s
      | Done v \<Rightarrow> False)"

definition main_step :: "world \<Rightarrow> API list \<Rightarrow> state \<Rightarrow> state" where
  "main_step w fs s =
     (case main s of
        Spawning \<Rightarrow>
          if length (workers s) < length fs
          then s\<lparr>wg := wg s + 1, workers := workers s @ [Fetching]\<rparr>
          else s\<lparr>main := Waiting\<rparr>
      | Waiting \<Rightarrow> s\<lparr>main := Closing\<rparr>
      | Closing \<Rightarrow> s\<lparr>chanClosed := True, main := Draining\<rparr>
      | Draining \<Rightarrow>
          (case resultsChan s of
             r # rest \<Rightarrow> s\<lparr>resultsChan := rest, collected := collected s @ [r]\<rparr>
           | [] \<Rightarrow> s\<lparr>main := Done (calculateAverageAndConvertToAUD (collected s) (get w rates_url))\<rparr>)
      | Done v \<Rightarrow> s)"

text \<open>
  The goroutine of the fetcher \<open>fs ! i\<close> can take a step unless it has returned or
  waits for room in the buffer, whose capacity is \<open>cap\<close>. Its steps: the call of
  \<^verbatim>\<open>FetchPrice\<close>, which returns or panics; the send, which panics on a closed channel;
  the deferred \<^verbatim>\<open>wg.Done()\<close>, after the send or after a panic; and, a panic having run
  the deferred call, the end of the process.
\<close>

definition worker_ready :: "nat \<Rightarrow> state \<Rightarrow> nat \<Rightarrow> bool" where
  "worker_ready cap s i =
     (case workers s ! i of
        Fetching \<Rightarrow> True
      | Sending r \<Rightarrow> chanClosed s \<or> length (resultsChan s) < cap
      | Finishing \<Rightarrow> True
      | Finished \<Rightarrow> False
      | Panicking \<Rightarrow> True
      | Dying \<Rightarrow> True)"

definition worker_step :: "world \<Rightarrow> API list \<Rightarrow> nat \<Rightarrow> state \<Rightarrow> state" where
  "worker_step w fs i s =
     (case workers s ! i of
        Fetching \<Rightarrow>
          s\<lparr>workers := (workers s)[i := (case goroutine w (fs ! i) of
                                           Some r \<Rightarrow> Sending r
                                         | None \<Rightarrow> Panicking)]\<rparr>
      | Sending r \<Rightarrow>
          if chanClosed s then s\<lparr>workers := (workers s)[i := Panicking]\<rparr>
          else s\<lparr>resultsChan := resultsChan s @ [r], workers := (workers s)[i := Finishing]\<rparr>
      | Finishing \<Rightarrow> s\<lparr>wg := wg s - 1, workers := (workers s)[i := Finished]\<rparr>
      | Finished \<Rightarrow> s
      | Panicking \<Rightarrow> s\<lparr>wg := wg s - 1, workers := (workers s)[i := Dying]\<rparr>
      | Dying \<Rightarrow> s\<lparr>dead := True\<rparr>)"

text \<open>
  Who can take a step: \<open>0\<close> is the function, \<open>Suc i\<close> the goroutine of the fetcher
  \<open>fs ! i\<close>; no one once the process is dead. The scheduler of the Go runtime chooses
  among them: \<open>step\<close> takes the choice as a number \<open>c\<close> and lets the one at the position
  \<open>c mod n\<close> of the \<open>n\<close> that are ready take its step. \<open>exec\<close> runs a list of choices.
\<close>

definition ready :: "API list \<Rightarrow> state \<Rightarrow> nat list" where
  "ready fs s =
     (if dead s then []
      else (if main_ready s then [0] else [])
           @ map Suc (filter (worker_ready (length fs) s) [0..<length (workers s)]))"

definition step :: "world \<Rightarrow> API list \<Rightarrow> nat \<Rightarrow> state \<Rightarrow> state" where
  "step w fs c s =
     (case ready fs s of
        [] \<Rightarrow> s
      | a # as \<Rightarrow>
          (case (a # as) ! (c mod length (a # as)) of
             0 \<Rightarrow> main_step w fs s
           | Suc i \<Rightarrow> worker_step w fs i s))"

definition exec :: "world \<Rightarrow> API list \<Rightarrow> nat list \<Rightarrow> state \<Rightarrow> state" where
  "exec w fs choices s = foldl (\<lambda>s c. step w fs c s) s choices"

text \<open>
  A run for a list of fetchers: the choices of the world, and then the first of those
  that are ready until no one is. The function and the goroutines of \<open>N\<close> fetchers take
  at most \<open>5 * N + 4\<close> steps together (\<open>2 * N + 4\<close> and \<open>3\<close> each), so that
  \<open>5 * N + 5\<close> further choices end every run (lemma \<open>run_to_end_final\<close>).
\<close>

definition run_to_end :: "world \<Rightarrow> API list \<Rightarrow> state" where
  "run_to_end w fs = exec w fs (sched w @ replicate (5 * length fs + 5) 0) init"

text \<open>
  What the caller of \<^verbatim>\<open>fetchAndCalculatePrice\<close> gets: the value the function returns,
  or nothing because the process has ended first. (Whether the process ends after the
  function has returned is the field \<open>dead\<close> of the last state.)
\<close>

datatype run = Crashed | Returned "error + float64"

definition fetchAndCalculatePrice :: "world \<Rightarrow> run" where
  "fetchAndCalculatePrice w =
     (case main (run_to_end w fetchers) of
        Done v \<Rightarrow> Returned v
      | _ \<Rightarrow> Crashed)"

section \<open>What the specification says, in its own words\<close>

text \<open>
  The successful prices of a collection of outcomes, in their order, and the mean as
  the specification writes it: \<^verbatim>\<open>sum(successful prices)/count(successful prices)\<close>,
  in float64 arithmetic.
\<close>

definition successful_prices :: "PriceResult list \<Rightarrow> float64 list" where
  "successful_prices results = map price (filter (\<lambda>r. err r = None) results)"

definition mean_of :: "float64 list \<Rightarrow> float64" where
  "mean_of ps = fdiv (foldl fadd fzero ps) (float64_of_int (int (length ps)))"

text \<open>
  A fetcher succeeds when its \<^verbatim>\<open>FetchPrice\<close> returns a price, fails when it returns
  an error, and panics when the call does not return.
\<close>

definition succeeds :: "world \<Rightarrow> API \<Rightarrow> bool" where
  "succeeds w f = (case FetchPrice f (get w (url f)) (first w) of Ok p \<Rightarrow> True | _ \<Rightarrow> False)"

definition fails :: "world \<Rightarrow> API \<Rightarrow> bool" where
  "fails w f = (case FetchPrice f (get w (url f)) (first w) of Err e \<Rightarrow> True | _ \<Rightarrow> False)"

definition panics :: "world \<Rightarrow> API \<Rightarrow> bool" where
  "panics w f = (case FetchPrice f (get w (url f)) (first w) of Panic \<Rightarrow> True | _ \<Rightarrow> False)"

text \<open>
  The rate the converter reads for a currency, and when that rate is missing or zero in
  the decoded response.
\<close>

definition rate :: "(string \<times> (string \<times> float64) list) list \<Rightarrow> string \<Rightarrow> float64" where
  "rate data currency = index (index data ''ethereum'' []) currency fzero"

definition missing_or_zero :: "(string \<times> (string \<times> float64) list) list \<Rightarrow> string \<Rightarrow> bool" where
  "missing_or_zero data currency =
     (case map_of data ''ethereum'' of
        None \<Rightarrow> True
      | Some ethData \<Rightarrow>
          (case map_of ethData currency of None \<Rightarrow> True | Some f \<Rightarrow> feq f fzero))"

text \<open>
  The outcome the specification expects of an adapter, under the name of the source:
  the price when \<^verbatim>\<open>FetchPrice\<close> returns one, and the error (with the price 0 that
  \<^verbatim>\<open>FetchPrice\<close> returns beside it) when it returns an error. A call that panics has no
  outcome.
\<close>

definition outcome_of :: "world \<Rightarrow> API \<Rightarrow> PriceResult option" where
  "outcome_of w f =
     (case FetchPrice f (get w (url f)) (first w) of
        Ok p \<Rightarrow> Some \<lparr>price = p, err = None, source = name f\<rparr>
      | Err e \<Rightarrow> Some \<lparr>price = fzero, err = Some e, source = name f\<rparr>
      | Panic \<Rightarrow> None)"

text \<open>
  The values of the type \<open>float64\<close> that are float64 numbers, in canonical form: every
  operation of the model returns such a value (the constructor \<open>Fin\<close> has others, such
  as \<open>Fin False 1 5000\<close>).
\<close>

definition is_float64 :: "float64 \<Rightarrow> bool" where
  "is_float64 a =
     (case a of
        Fin s m e \<Rightarrow> 0 \<le> m \<and> m < 2 ^ 53 \<and> - 1074 \<le> e \<and> e \<le> 971 \<and> (2 ^ 52 \<le> m \<or> e = - 1074)
      | _ \<Rightarrow> True)"

text \<open>
  Prices whose sums are exact. \<open>on_grid q a\<close>: the float64 \<open>a\<close> is finite, not negative,
  and a whole multiple of \<open>2^q\<close>; \<open>units q a\<close> is that multiple. With \<open>q = 0\<close> these are
  the whole numbers of dollars, with \<open>q = -2\<close> the multiples of a quarter.
\<close>

definition units :: "int \<Rightarrow> float64 \<Rightarrow> int" where
  "units q a = (case a of Fin s m e \<Rightarrow> m * pow2 (e - q) div pow2 (q - e) | _ \<Rightarrow> 0)"

definition on_grid :: "int \<Rightarrow> float64 \<Rightarrow> bool" where
  "on_grid q a =
     (case a of
        Fin s m e \<Rightarrow> \<not> s \<and> is_float64 a \<and> m * pow2 (e - q) mod pow2 (q - e) = 0
      | _ \<Rightarrow> False)"

section \<open>Sample inputs\<close>

text \<open>An outcome with a price, an outcome with an error, and a reply with status 200.\<close>

definition quoted :: "string \<Rightarrow> float64 \<Rightarrow> PriceResult" where
  "quoted n p = \<lparr>price = p, err = None, source = n\<rparr>"

definition failed :: "string \<Rightarrow> error \<Rightarrow> PriceResult" where
  "failed n e = \<lparr>price = fzero, err = Some e, source = n\<rparr>"

definition ok200 :: "json \<Rightarrow> reply" where
  "ok200 j = Response 200 (Body (Json j))"

text \<open>
  \<open>represents f n d\<close>: the float64 \<open>f\<close> is finite and its value is exactly \<open>n / d\<close>
  (for \<open>d > 0\<close>).
\<close>

definition represents :: "float64 \<Rightarrow> int \<Rightarrow> int \<Rightarrow> bool" where
  "represents f n d =
     (case f of
        Fin s m e \<Rightarrow> smant s m * pow2 e * d = n * pow2 (- e)
      | _ \<Rightarrow> False)"

text \<open>
  A world in which the first source answers with a price, the fourth with a status 503
  and the three others not at all.
\<close>

definition sample_world :: world where
  "sample_world =
     \<lparr>get = (\<lambda>u.
        if u = ''https://api.coingecko.com/api/v3/simple/price?ids=ethereum&vs_currencies=usd''
        then ok200 (JObj [(''ethereum'', JObj [(''usd'', JNum False 30005 (- 1))])])
        else if u = ''https://api.kraken.com/0/public/Ticker?pair=ETHUSD''
        then Response 503 Unreadable
        else GetError),
      first = 0,
      sched = [3, 1, 4, 1, 5]\<rparr>"

text \<open>
  A world in which Kraken answers with a well-formed ticker whose list \<^verbatim>\<open>c\<close> is empty,
  and every other request fails.
\<close>

definition kraken_empty :: json where
  "kraken_empty =
     JObj [(''error'', JArr []), (''result'', JObj [(''XETHZUSD'', JObj [(''c'', JArr [])])])]"

definition kraken_world :: world where
  "kraken_world =
     \<lparr>get = (\<lambda>u.
        if u = ''https://api.kraken.com/0/public/Ticker?pair=ETHUSD'' then ok200 kraken_empty
        else GetError),
      first = 0,
      sched = []\<rparr>"

text \<open>
  A world in which Kraken answers with that ticker, Coinbase does not answer, and
  the three other sources quote 2990, 3010 and 3000; the exchange rates are 3000 and
  4500. Its scheduler lets the Kraken goroutine run first, up to and including the
  deferred \<^verbatim>\<open>wg.Done()\<close> of its panic, then the four other goroutines, each to its
  end, then the function to its return, and only then the runtime, which ends the
  process.
\<close>

definition return_first :: "nat list" where
  "return_first = [0, 0, 0, 0, 0, 0,  3, 3,  0, 0, 0,  0, 0, 0,  0, 0, 0,  1, 1, 1,
                   0, 0, 0, 0, 0, 0, 0]"

definition lost_world :: world where
  "lost_world =
     \<lparr>get = (\<lambda>u.
        if u = ''https://api.coingecko.com/api/v3/simple/price?ids=ethereum&vs_currencies=usd''
        then ok200 (JObj [(''ethereum'', JObj [(''usd'', JNum False 2990 0)])])
        else if u = ''https://www.bitstamp.net/api/v2/ticker/ethusd/''
        then ok200 (JObj [(''last'', JStr ''3010''), (''volume'', JStr ''1234.5'')])
        else if u = ''https://api.kraken.com/0/public/Ticker?pair=ETHUSD''
        then ok200 kraken_empty
        else if u = ''https://api-pub.bitfinex.com/v2/ticker/tETHUSD''
        then ok200 (JArr [JNum False 29995 (- 1), JNum False 12 0, JNum False 30005 (- 1),
                          JNum False 7 0, JNum False 10 0, JNum False 33 (- 4), JNum False 3000 0,
                          JNum False 52000 0, JNum False 3050 0, JNum False 2950 0])
        else if u = ''https://api.coingecko.com/api/v3/simple/price?ids=ethereum&vs_currencies=usd,aud''
        then ok200 (JObj [(''ethereum'', JObj [(''usd'', JNum False 3000 0), (''aud'', JNum False 4500 0)])])
        else GetError),
      first = 0,
      sched = return_first\<rparr>"

text \<open>
  The example of the specification: five sources, three with the prices 2990, 3010 and
  3000 and two failed, and the exchange rates 3000 and 4500.
\<close>

definition example_world :: world where
  "example_world =
     \<lparr>get = (\<lambda>u.
        if u = ''https://api.coingecko.com/api/v3/simple/price?ids=ethereum&vs_currencies=usd''
        then ok200 (JObj [(''ethereum'', JObj [(''usd'', JNum False 2990 0)])])
        else if u = ''https://www.bitstamp.net/api/v2/ticker/ethusd/''
        then ok200 (JObj [(''last'', JStr ''3010''), (''volume'', JStr ''1234.5'')])
        else if u = ''https://api.kraken.com/0/public/Ticker?pair=ETHUSD''
        then Response 503 Unreadable
        else if u = ''https://api-pub.bitfinex.com/v2/ticker/tETHUSD''
        then ok200 (JArr [JNum False 29995 (- 1), JNum False 12 0, JNum False 30005 (- 1),
                          JNum False 7 0, JNum False 10 0, JNum False 33 (- 4), JNum False 3000 0,
                          JNum False 52000 0, JNum False 3050 0, JNum False 2950 0])
        else if u = ''https://api.coingecko.com/api/v3/simple/price?ids=ethereum&vs_currencies=usd,aud''
        then ok200 (JObj [(''ethereum'', JObj [(''usd'', JNum False 3000 0), (''aud'', JNum False 4500 0)])])
        else GetError),
      first = 0,
      sched = [4, 0, 2, 1, 0]\<rparr>"

text \<open>
  A world in which three sources quote 3000.1, 3000.2 and 3000.3, the two others fail,
  and both exchange rates are 1.
\<close>

definition tenths_world :: world where
  "tenths_world =
     \<lparr>get = (\<lambda>u.
        if u = ''https://api.coingecko.com/api/v3/simple/price?ids=ethereum&vs_currencies=usd''
        then ok200 (JObj [(''ethereum'', JObj [(''usd'', JNum False 30001 (- 1))])])
        else if u = ''https://api.coinbase.com/v2/prices/ETH-USD/spot''
        then ok200 (JObj [(''data'', JObj [(''amount'', JStr ''3000.2''), (''base'', JStr ''ETH''),
                                           (''currency'', JStr ''USD'')])])
        else if u = ''https://www.bitstamp.net/api/v2/ticker/ethusd/''
        then ok200 (JObj [(''last'', JStr ''3000.3'')])
        else if u = ''https://api.coingecko.com/api/v3/simple/price?ids=ethereum&vs_currencies=usd,aud''
        then ok200 (JObj [(''ethereum'', JObj [(''usd'', JNum False 1 0), (''aud'', JNum False 1 0)])])
        else GetError),
      first = 0,
      sched = []\<rparr>"


section \<open>Facts about the model\<close>

subsection \<open>float64 and ParseFloat on examples\<close>

text \<open>
  \<^verbatim>\<open>0.1 + 0.2\<close> is \<^verbatim>\<open>0.30000000000000004\<close>, and float64 addition is commutative but
  not associative.
\<close>

lemma fadd_tenths:
  "fadd (dec_to_float64 False 1 (- 1)) (dec_to_float64 False 2 (- 1)) =
   dec_to_float64 False 30000000000000004 (- 17)"
  by code_simp

text \<open>
  Rounding to nearest, ties to even: \<open>2^53 + 1\<close> is \<open>2^53\<close> and \<open>2^53 + 3\<close> is
  \<open>2^53 + 4\<close>; \<open>1/3\<close> is \<^verbatim>\<open>0x1.5555555555555p-2\<close>; half the smallest subnormal is 0,
  and one and a half times it is twice it; twice the largest number is \<open>+Inf\<close>;
  \<open>1/0\<close> is \<open>+Inf\<close>, \<open>0/0\<close> a NaN, and \<open>-0 + 0\<close> is \<open>+0\<close>.
\<close>

lemma float64_rounding_examples:
  "fadd (float64_of_int 9007199254740992) (float64_of_int 1) = float64_of_int 9007199254740992"
  "fadd (float64_of_int 9007199254740992) (float64_of_int 3) = float64_of_int 9007199254740996"
  "float64_of_int 9007199254740993 = Fin False 4503599627370496 1"
  "fdiv (float64_of_int 1) (float64_of_int 3) = Fin False 6004799503160661 (- 54)"
  "fdiv (Fin False 1 (- 1074)) (float64_of_int 2) = fzero"
  "fdiv (Fin False 3 (- 1074)) (float64_of_int 2) = Fin False 2 (- 1074)"
  "fmul (Fin False 9007199254740991 971) (float64_of_int 2) = Infty False"
  "fdiv (float64_of_int 1) fzero = Infty False"
  "fdiv fzero fzero = NaN"
  "fadd (Fin True 0 (- 1074)) fzero = fzero"
  by code_simp+

lemma fadd_commute: "fadd a b = fadd b a"
  by (cases a; cases b) (auto simp: Let_def min.commute add.commute)

lemma fadd_not_associative:
  "fadd (fadd (dec_to_float64 False 1 (- 1)) (dec_to_float64 False 2 (- 1))) (dec_to_float64 False 3 (- 1))
   \<noteq> fadd (dec_to_float64 False 1 (- 1)) (fadd (dec_to_float64 False 2 (- 1)) (dec_to_float64 False 3 (- 1)))"
  by code_simp

lemma feq_fzero_fzero: "feq fzero fzero"
  by (simp add: fzero_def)

lemma ParseFloat_examples:
  "ParseFloat ''3000.5'' = Inr (Fin False 6598169278283776 (- 41))"
  "ParseFloat ''NaN'' = Inr NaN"
  "ParseFloat ''-Infinity'' = Inr (Infty True)"
  "ParseFloat ''0x1p-2'' = Inr (Fin False 4503599627370496 (- 54))"
  "ParseFloat ''1_000.5'' = Inr (Fin False 8800491068719104 (- 43))"
  "ParseFloat ''1e400'' = Inl ErrRange"
  "ParseFloat '''' = Inl ErrSyntax"
  "ParseFloat ''3000,5'' = Inl ErrSyntax"
  by code_simp+

subsection \<open>Exact float64 sums\<close>

text \<open>
  \<open>pow2\<close> and \<open>bitlen\<close> are what their names say, and the exponent \<open>l\<close> that
  \<open>round_ratio\<close> computes is the binary exponent of the ratio.
\<close>

lemma pow2_eq: "pow2 x = 2 ^ nat x"
proof (induction x rule: pow2.induct)
  case (1 x)
  show ?case
  proof (cases "x \<le> 0")
    case True
    then show ?thesis by (simp add: pow2.simps)
  next
    case False
    then have "pow2 x = 2 * pow2 (x - 1)" by (simp add: pow2.simps)
    also have "\<dots> = 2 * 2 ^ nat (x - 1)" using 1 False by simp
    also have "\<dots> = 2 ^ Suc (nat (x - 1))" by simp
    also have "Suc (nat (x - 1)) = nat x" using False by simp
    finally show ?thesis .
  qed
qed
lemma pow2_pos: "0 < pow2 x" by (simp add: pow2_eq)
lemma pow2_powi: "real_of_int (pow2 x) / real_of_int (pow2 (- x)) = 2 powi x"
  by (cases "0 \<le> x") (simp_all add: pow2_eq power_int_def power_one_over)

lemma bitlen_nonneg: "0 \<le> bitlen n"
  by (induction n rule: bitlen.induct) (simp add: bitlen.simps)

lemma bitlen_pos: "0 < n \<Longrightarrow> 0 < bitlen n"
  using bitlen_nonneg [of "n div 2"] by (simp add: bitlen.simps [of n])

lemma bitlen_bounds: "0 < n \<Longrightarrow> 2 ^ nat (bitlen n - 1) \<le> n \<and> n < 2 ^ nat (bitlen n)"
proof (induction n rule: bitlen.induct)
  case (1 n)
  show ?case
  proof (cases "n = 1")
    case True
    then show ?thesis by (simp add: bitlen.simps)
  next
    case False
    with 1 have h: "0 < n div 2" by simp
    define b where "b = bitlen (n div 2)"
    have bp: "0 < b" using h bitlen_pos b_def by simp
    have bn: "bitlen n = 1 + b" using 1(2) b_def by (simp add: bitlen.simps [of n])
    from 1 h have ih: "2 ^ nat (b - 1) \<le> n div 2" "n div 2 < 2 ^ nat b" by (simp_all add: b_def)
    have e: "nat b = Suc (nat (b - 1))" using bp by simp
    have "(2::int) ^ nat b = 2 * 2 ^ nat (b - 1)" by (subst e) simp
    with ih have l: "2 ^ nat b \<le> n" by linarith
    have "(2::int) ^ nat (1 + b) = 2 * 2 ^ nat b" using bp by (simp add: nat_add_distrib)
    with ih have u: "n < 2 ^ nat (1 + b)" by linarith
    show ?thesis using l u bn by simp
  qed
qed

lemma bitlen_powi:
  assumes "0 < n"
  shows "2 powi (bitlen n - 1) \<le> real_of_int n" "real_of_int n < 2 powi (bitlen n)"
proof -
  have p: "0 < bitlen n" using assms by (rule bitlen_pos)
  from bitlen_bounds [OF assms] have a: "(2::int) ^ nat (bitlen n - 1) \<le> n" and b: "n < 2 ^ nat (bitlen n)" by simp_all
  have "real_of_int (2 ^ nat (bitlen n - 1)) \<le> real_of_int n" using a by (simp only: of_int_le_iff)
  then show "2 powi (bitlen n - 1) \<le> real_of_int n" using p by (simp add: power_int_def)
  have "real_of_int n < real_of_int (2 ^ nat (bitlen n))" using b by (simp only: of_int_less_iff)
  then show "real_of_int n < 2 powi (bitlen n)" using p by (simp add: power_int_def)
qed

lemma powi_diff2: "(2::real) powi (a - b) = 2 powi a / 2 powi b"
  by (simp add: power_int_diff)
lemma powi_add2: "(2::real) powi (a + b) = 2 powi a * 2 powi b"
  by (simp add: power_int_add)
lemma powi_pos2: "0 < (2::real) powi a"
  by (simp add: zero_less_power_int)

lemma ilog_correct:
  assumes N: "0 < N" and D: "0 < D"
  defines "l0 \<equiv> bitlen N - bitlen D"
  defines "l \<equiv> (if D * pow2 l0 \<le> N * pow2 (- l0) then l0 else l0 - 1)"
  shows "2 powi l \<le> real_of_int N / real_of_int D" "real_of_int N / real_of_int D < 2 powi (l + 1)"
proof -
  let ?v = "real_of_int N / real_of_int D"
  have Dr: "0 < real_of_int D" using D by simp
  have Nr: "0 < real_of_int N" using N by simp
  have t: "(D * pow2 l0 \<le> N * pow2 (- l0)) = (2 powi l0 \<le> ?v)"
  proof -
    have pp: "0 < real_of_int (pow2 (- l0))" using pow2_pos by simp
    have "(D * pow2 l0 \<le> N * pow2 (- l0)) = (real_of_int (D * pow2 l0) \<le> real_of_int (N * pow2 (- l0)))"
      by (simp only: of_int_le_iff)
    also have "\<dots> = (real_of_int D * real_of_int (pow2 l0) \<le> real_of_int N * real_of_int (pow2 (- l0)))" by simp
    also have "\<dots> = (real_of_int (pow2 l0) / real_of_int (pow2 (- l0)) \<le> ?v)"
      using Dr pp by (simp add: field_simps)
    finally show ?thesis by (simp only: pow2_powi)
  qed
  have lo: "2 powi (l0 - 1) < ?v"
  proof -
    have "l0 - 1 = (bitlen N - 1) - bitlen D" by (simp add: l0_def)
    then have "(2::real) powi (l0 - 1) = 2 powi (bitlen N - 1) / 2 powi (bitlen D)"
      by (simp only: powi_diff2)
    also have "\<dots> \<le> real_of_int N / 2 powi (bitlen D)"
      using bitlen_powi(1) [OF N] by (simp add: divide_right_mono)
    also have "\<dots> < real_of_int N / real_of_int D"
      using bitlen_powi(2) [OF D] Nr Dr by (simp add: divide_strict_left_mono)
    finally show ?thesis .
  qed
  have hi: "?v < 2 powi (l0 + 1)"
  proof -
    have dd: "0 < (2::real) powi (bitlen D - 1)" by (simp add: zero_less_power_int)
    have "?v < 2 powi (bitlen N) / real_of_int D"
      using bitlen_powi(2) [OF N] Dr by (simp add: divide_strict_right_mono)
    also have "\<dots> \<le> 2 powi (bitlen N) / 2 powi (bitlen D - 1)"
      using bitlen_powi(1) [OF D] dd Dr powi_pos2 [of "bitlen N"] by (intro divide_left_mono) simp_all
    also have "\<dots> = 2 powi (bitlen N - (bitlen D - 1))" by (simp only: powi_diff2)
    also have "bitlen N - (bitlen D - 1) = l0 + 1" by (simp add: l0_def)
    finally show ?thesis .
  qed
  show "2 powi l \<le> ?v" using t lo by (simp add: l_def)
  show "?v < 2 powi (l + 1)" using t hi by (simp add: l_def)
qed

lemma powi_unique:
  fixes v :: real
  assumes "2 powi l \<le> v" "v < 2 powi (l + 1)" "2 powi l' \<le> v" "v < 2 powi (l' + 1)"
  shows "l = l'"
proof -
  have a: "(2::real) powi l < 2 powi (l' + 1)" using assms by linarith
  have b: "(2::real) powi l' < 2 powi (l + 1)" using assms by linarith
  have "l < l' + 1"
  proof (rule ccontr)
    assume "\<not> l < l' + 1"
    then have "(2::real) powi (l' + 1) \<le> 2 powi l" by (intro power_int_increasing) simp_all
    with a show False by simp
  qed
  moreover have "l' < l + 1"
  proof (rule ccontr)
    assume "\<not> l' < l + 1"
    then have "(2::real) powi (l + 1) \<le> 2 powi l'" by (intro power_int_increasing) simp_all
    with b show False by simp
  qed
  ultimately show ?thesis by simp
qed

lemma powi_less_imp: "(2::real) powi a < 2 powi b \<Longrightarrow> a < b"
proof (rule ccontr)
  assume h: "(2::real) powi a < 2 powi b" "\<not> a < b"
  then have "(2::real) powi b \<le> 2 powi a" by (intro power_int_increasing) simp_all
  with h show False by simp
qed

lemma round_ratio_unfold:
  assumes "n \<noteq> 0"
    and "l = (let l0 = bitlen (n * pow2 x) - bitlen (d * pow2 (- x))
              in if d * pow2 (- x) * pow2 l0 \<le> n * pow2 x * pow2 (- l0) then l0 else l0 - 1)"
    and "e = max (l - 52) (- 1074)"
    and "N' = n * pow2 x * pow2 (- e)"
    and "D' = d * pow2 (- x) * pow2 e"
  shows "round_ratio s n d x =
     (let k = N' div D';
          r = N' mod D';
          m = (if 2 * r < D' then k
               else if D' < 2 * r then k + 1
               else if even k then k else k + 1);
          m' = (if m = pow2 53 then pow2 52 else m);
          e' = (if m = pow2 53 then e + 1 else e)
      in if 971 < e' then Infty s else Fin s m' e')"
  unfolding assms(2-) round_ratio_def Let_def using assms(1) by (simp only: if_False)

lemma round_ratio_exact:
  assumes n: "0 < n" and m: "0 < m" "m < 2 ^ 53" and e: "- 1074 \<le> e" "e \<le> 971"
    and c: "2 ^ 52 \<le> m \<or> e = - 1074"
    and eq: "real_of_int n * 2 powi x = real_of_int m * 2 powi e"
  shows "round_ratio s n 1 x = Fin s m e"
proof -
  define N where "N = n * pow2 x"
  define D where "D = 1 * pow2 (- x)"
  define l where "l = (let l0 = bitlen N - bitlen D
              in if D * pow2 l0 \<le> N * pow2 (- l0) then l0 else l0 - 1)"
  have Np: "0 < N" using n pow2_pos [of x] by (simp add: N_def)
  have Dp: "0 < D" using pow2_pos [of "- x"] by (simp add: D_def)
  let ?v = "real_of_int N / real_of_int D"
  have v: "?v = real_of_int m * 2 powi e"
  proof -
    have "?v = real_of_int n * (real_of_int (pow2 x) / real_of_int (pow2 (- x)))"
      by (simp add: N_def D_def)
    then show ?thesis using eq by (simp only: pow2_powi)
  qed
  have lb: "2 powi l \<le> ?v" and ub: "?v < 2 powi (l + 1)"
    using ilog_correct [OF Np Dp] by (simp_all add: l_def Let_def)
  have mr: "real_of_int m < 2 ^ 53" using m(2) by simp
  have em: "max (l - 52) (- 1074) = e"
  proof (cases "2 ^ 52 \<le> m")
    case True
    then have "(2::real) ^ 52 \<le> real_of_int m" by simp
    then have "2 powi e * 2 ^ 52 \<le> 2 powi e * real_of_int m"
      using powi_pos2 [of e] by simp
    moreover have "(2::real) powi (e + 52) = 2 powi e * 2 ^ 52" by (simp add: power_int_add)
    ultimately have l1: "2 powi (e + 52) \<le> ?v" using v by (simp add: mult.commute)
    have "2 powi e * real_of_int m < 2 powi e * 2 ^ 53" using mr powi_pos2 [of e] by simp
    moreover have "(2::real) powi (e + 52 + 1) = 2 powi e * 2 ^ 53" 
      by (simp add: power_int_add)
    ultimately have u1: "?v < 2 powi (e + 52 + 1)" using v by (simp add: mult.commute)
    have "l = e + 52" using lb ub l1 u1 by (rule powi_unique)
    then show ?thesis using e by simp
  next
    case False
    with c have e1: "e = - 1074" by simp
    from False have "real_of_int m < 2 ^ 52" by simp
    then have "2 powi e * real_of_int m < 2 powi e * 2 ^ 52" using powi_pos2 [of e] by simp
    moreover have "(2::real) powi (e + 52) = 2 powi e * 2 ^ 52" by (simp add: power_int_add)
    ultimately have "?v < 2 powi (e + 52)" using v by (simp add: mult.commute)
    with lb have "(2::real) powi l < 2 powi (e + 52)" by linarith
    then have "l < e + 52" by (rule powi_less_imp)
    then show ?thesis using e1 by simp
  qed
  define N' where "N' = n * pow2 x * pow2 (- e)"
  define D' where "D' = 1 * pow2 (- x) * pow2 e"
  have D'p: "0 < D'" using pow2_pos [of "- x"] pow2_pos [of e] by (simp add: D'_def)
  have ND: "N' = m * D'"
  proof -
    have pe: "real_of_int (pow2 e) = 2 powi e * real_of_int (pow2 (- e))"
      using pow2_powi [of e] pow2_pos [of "- e"] by (simp add: field_simps)
    have "real_of_int N = real_of_int m * 2 powi e * real_of_int D"
      using v Dp by (simp add: field_simps)
    then have "real_of_int N * real_of_int (pow2 (- e)) = real_of_int m * (real_of_int D * real_of_int (pow2 e))"
      using pe by simp
    then have "real_of_int (N * pow2 (- e)) = real_of_int (m * (D * pow2 e))" by simp
    then have "N * pow2 (- e) = m * (D * pow2 e)" by (simp only: of_int_eq_iff)
    then show ?thesis by (simp add: N'_def D'_def N_def D_def)
  qed
  have rr: "round_ratio s n 1 x =
     (let k = N' div D';
          r = N' mod D';
          m = (if 2 * r < D' then k
               else if D' < 2 * r then k + 1
               else if even k then k else k + 1);
          m' = (if m = pow2 53 then pow2 52 else m);
          e' = (if m = pow2 53 then e + 1 else e)
      in if 971 < e' then Infty s else Fin s m' e')"
  proof (rule round_ratio_unfold [where l = l])
    show "n \<noteq> 0" using n by simp
    show "l = (let l0 = bitlen (n * pow2 x) - bitlen (1 * pow2 (- x))
              in if 1 * pow2 (- x) * pow2 l0 \<le> n * pow2 x * pow2 (- l0) then l0 else l0 - 1)"
      by (simp add: l_def N_def D_def)
    show "e = max (l - 52) (- 1074)" using em by simp
    show "N' = n * pow2 x * pow2 (- e)" by (rule N'_def)
    show "D' = 1 * pow2 (- x) * pow2 e" by (rule D'_def)
  qed
  have k: "N' div D' = m" "N' mod D' = 0" using ND D'p by simp_all
  have p53: "pow2 53 = 2 ^ 53" by (simp add: pow2_eq)
  show ?thesis using k D'p m e by (simp add: rr Let_def p53)
qed

lemma pow2_real: "0 \<le> x \<Longrightarrow> real_of_int (pow2 x) = 2 powi x"
  by (simp add: pow2_eq power_int_def)

lemma bitlen_le_53:
  assumes "0 < n" "n < 2 ^ 53"
  shows "bitlen n \<le> 53"
proof -
  have "(2::real) powi (bitlen n - 1) \<le> real_of_int n" using assms(1) by (rule bitlen_powi(1))
  also have "real_of_int n < 2 ^ 53" using assms(2) by simp
  also have "(2::real) ^ 53 = 2 powi 53" by simp
  finally have "bitlen n - 1 < 53" by (rule powi_less_imp)
  then show ?thesis by simp
qed

lemma canonical_form:
  assumes n: "0 < n" "n < 2 ^ 53" and q: "- 1074 \<le> q" "q \<le> 971"
  shows "\<exists>m e. 0 < m \<and> m < 2 ^ 53 \<and> - 1074 \<le> e \<and> e \<le> 971 \<and> (2 ^ 52 \<le> m \<or> e = - 1074)
           \<and> real_of_int m * 2 powi e = real_of_int n * 2 powi q"
proof -
  define sh where "sh = min (53 - bitlen n) (q + 1074)"
  define m where "m = n * pow2 sh"
  define e where "e = q - sh"
  have b: "bitlen n \<le> 53" using n by (rule bitlen_le_53)
  have sh0: "0 \<le> sh" using b q by (simp add: sh_def)
  have mr: "real_of_int m = real_of_int n * 2 powi sh" using sh0 by (simp add: m_def pow2_real)
  have mp: "0 < m" using n pow2_pos [of sh] by (simp add: m_def)
  have "real_of_int m < 2 powi (bitlen n) * 2 powi sh"
    using bitlen_powi(2) [OF n(1)] powi_pos2 [of sh] by (simp add: mr)
  also have "\<dots> = 2 powi (bitlen n + sh)" by (simp only: powi_add2)
  also have "\<dots> \<le> 2 powi 53" by (intro power_int_increasing) (simp_all add: sh_def)
  finally have "real_of_int m < real_of_int (2 ^ 53)" by simp
  then have m53: "m < 2 ^ 53" by (simp only: of_int_less_iff)
  have e1: "- 1074 \<le> e" by (simp add: e_def sh_def)
  have e2: "e \<le> 971" using q sh0 by (simp add: e_def)
  have c: "2 ^ 52 \<le> m \<or> e = - 1074"
  proof (cases "53 - bitlen n \<le> q + 1074")
    case True
    then have s: "bitlen n - 1 + sh = 52" by (simp add: sh_def)
    have "2 powi (bitlen n - 1) * 2 powi sh \<le> real_of_int m"
      using bitlen_powi(1) [OF n(1)] powi_pos2 [of sh] by (simp add: mr)
    also have "2 powi (bitlen n - 1) * 2 powi sh = (2::real) powi (bitlen n - 1 + sh)"
      by (simp only: powi_add2)
    finally have "real_of_int (2 ^ 52) \<le> real_of_int m" by (simp add: s)
    then have "2 ^ 52 \<le> m" by (simp only: of_int_le_iff)
    then show ?thesis by simp
  next
    case False
    then show ?thesis by (simp add: e_def sh_def)
  qed
  have "real_of_int m * 2 powi e = real_of_int n * (2 powi sh * 2 powi (q - sh))"
    by (simp add: mr e_def)
  also have "2 powi sh * 2 powi (q - sh) = (2::real) powi (sh + (q - sh))" by (simp only: powi_add2)
  finally have v: "real_of_int m * 2 powi e = real_of_int n * 2 powi q" by simp
  show ?thesis using mp m53 e1 e2 c v by blast
qed

lemma round_ratio_same:
  assumes "0 < n" "0 < u" "u < 2 ^ 53" "- 1074 \<le> q" "q \<le> 971"
    and "real_of_int n * 2 powi x = real_of_int u * 2 powi q"
  shows "round_ratio s n 1 x = round_ratio s u 1 q"
proof -
  from canonical_form [OF assms(2-5)] obtain m e where
    c: "0 < m" "m < 2 ^ 53" "- 1074 \<le> e" "e \<le> 971" "2 ^ 52 \<le> m \<or> e = - 1074"
    and v: "real_of_int m * 2 powi e = real_of_int u * 2 powi q" by blast
  have "round_ratio s n 1 x = Fin s m e"
    using assms(1) c by (rule round_ratio_exact) (simp add: assms(6) v)
  moreover have "round_ratio s u 1 q = Fin s m e"
    using assms(2) c by (rule round_ratio_exact) (simp add: v)
  ultimately show ?thesis by simp
qed

lemma round_ratio_rep:
  assumes "0 \<le> u" "u < 2 ^ 53" "- 1074 \<le> q" "q \<le> 971"
  shows "\<exists>m e. round_ratio False u 1 q = Fin False m e \<and> 0 \<le> m
           \<and> real_of_int m * 2 powi e = real_of_int u * 2 powi q"
proof (cases "u = 0")
  case True
  then show ?thesis by (simp add: round_ratio_def)
next
  case False
  with assms have u: "0 < u" by simp
  from canonical_form [OF u assms(2-4)] obtain m e where
    c: "0 < m" "m < 2 ^ 53" "- 1074 \<le> e" "e \<le> 971" "2 ^ 52 \<le> m \<or> e = - 1074"
    and v: "real_of_int m * 2 powi e = real_of_int u * 2 powi q" by blast
  have "round_ratio False u 1 q = Fin False m e"
    using u c by (rule round_ratio_exact) (simp add: v)
  then show ?thesis using c v by (intro exI [of _ m] exI [of _ e]) simp
qed

lemma fadd_exact:
  assumes u1: "0 \<le> u1" and u2: "0 \<le> u2" and s: "u1 + u2 < 2 ^ 53" and q: "- 1074 \<le> q" "q \<le> 971"
  shows "fadd (round_ratio False u1 1 q) (round_ratio False u2 1 q) = round_ratio False (u1 + u2) 1 q"
proof -
  have "u1 < 2 ^ 53" "u2 < 2 ^ 53" using u1 u2 s by simp_all
  from round_ratio_rep [OF u1 this(1) q] round_ratio_rep [OF u2 this(2) q]
  obtain m1 e1 m2 e2 where
    r1: "round_ratio False u1 1 q = Fin False m1 e1" "0 \<le> m1"
        "real_of_int m1 * 2 powi e1 = real_of_int u1 * 2 powi q"
    and r2: "round_ratio False u2 1 q = Fin False m2 e2" "0 \<le> m2"
        "real_of_int m2 * 2 powi e2 = real_of_int u2 * 2 powi q" by (elim exE conjE)
  define e where "e = min e1 e2"
  define i where "i = m1 * pow2 (e1 - e) + m2 * pow2 (e2 - e)"
  have i0: "0 \<le> i" using r1(2) r2(2) pow2_pos [of "e1 - e"] pow2_pos [of "e2 - e"]
    by (simp add: i_def)
  have p1: "real_of_int (pow2 (e1 - e)) = 2 powi (e1 - e)" by (rule pow2_real) (simp add: e_def)
  have p2: "real_of_int (pow2 (e2 - e)) = 2 powi (e2 - e)" by (rule pow2_real) (simp add: e_def)
  have x1: "2 powi (e1 - e) * 2 powi e = (2::real) powi e1" using powi_add2 [of "e1 - e" e] by simp
  have x2: "2 powi (e2 - e) * 2 powi e = (2::real) powi e2" using powi_add2 [of "e2 - e" e] by simp
  have "real_of_int i = real_of_int m1 * 2 powi (e1 - e) + real_of_int m2 * 2 powi (e2 - e)"
    by (simp add: i_def p1 p2)
  then have "real_of_int i * 2 powi e
      = real_of_int m1 * (2 powi (e1 - e) * 2 powi e) + real_of_int m2 * (2 powi (e2 - e) * 2 powi e)"
    by (simp only: distrib_right mult.assoc)
  then have "real_of_int i * 2 powi e = real_of_int u1 * 2 powi q + real_of_int u2 * 2 powi q"
    by (simp only: x1 x2 r1(3) r2(3))
  then have v: "real_of_int i * 2 powi e = real_of_int (u1 + u2) * 2 powi q"
    by (simp only: of_int_add distrib_right)
  have z: "round_ratio False 0 1 q = Fin False 0 (- 1074)" by (simp add: round_ratio_def)
  have f: "fadd (Fin False m1 e1) (Fin False m2 e2)
        = (if i = 0 then Fin False 0 (- 1074) else round_ratio (i < 0) \<bar>i\<bar> 1 e)"
    by (simp add: Let_def smant_def i_def e_def)
  show ?thesis
  proof (cases "i = 0")
    case True
    with v have "real_of_int (u1 + u2) * 2 powi q = 0" by simp
    then have "u1 + u2 = 0" using powi_pos2 [of q] by simp
    then have "round_ratio False (u1 + u2) 1 q = Fin False 0 (- 1074)" by (simp add: z)
    then show ?thesis unfolding r1(1) r2(1) f using True by simp
  next
    case False
    with i0 have ip: "0 < i" by simp
    have up: "0 < u1 + u2"
    proof (rule ccontr)
      assume "\<not> 0 < u1 + u2"
      with u1 u2 have "u1 + u2 = 0" by simp
      with v have "real_of_int i * 2 powi e = 0" by simp
      then show False using ip powi_pos2 [of e] by simp
    qed
    have "round_ratio False i 1 e = round_ratio False (u1 + u2) 1 q"
      using ip up s q v by (rule round_ratio_same)
    moreover have "\<bar>i\<bar> = i" "\<not> i < 0" "i \<noteq> 0" using ip by simp_all
    ultimately show ?thesis unfolding r1(1) r2(1) f by simp
  qed
qed

lemma on_grid_value:
  assumes "on_grid q (Fin s m e)"
  shows "real_of_int m * 2 powi e = real_of_int (units q (Fin s m e)) * 2 powi q" "0 \<le> units q (Fin s m e)"
proof -
  define u where "u = units q (Fin s m e)"
  have m0: "0 \<le> m" using assms by (simp add: on_grid_def is_float64_def)
  have "m * pow2 (e - q) mod pow2 (q - e) = 0" using assms by (simp add: on_grid_def)
  then have "pow2 (q - e) dvd m * pow2 (e - q)" by (simp only: dvd_eq_mod_eq_0)
  then have d: "u * pow2 (q - e) = m * pow2 (e - q)" by (simp add: u_def units_def)
  have "real_of_int (u * pow2 (q - e)) = real_of_int (m * pow2 (e - q))" by (simp only: d)
  then have "real_of_int u * real_of_int (pow2 (- (e - q))) = real_of_int m * real_of_int (pow2 (e - q))" by simp
  then have "real_of_int u = real_of_int m * (real_of_int (pow2 (e - q)) / real_of_int (pow2 (- (e - q))))"
    using pow2_pos [of "- (e - q)"] by (simp add: field_simps)
  then have "real_of_int u = real_of_int m * 2 powi (e - q)" by (simp only: pow2_powi)
  then have "real_of_int u * 2 powi q = real_of_int m * (2 powi (e - q) * 2 powi q)" by simp
  also have "2 powi (e - q) * 2 powi q = (2::real) powi (e - q + q)" by (simp only: powi_add2)
  finally show "real_of_int m * 2 powi e = real_of_int (units q (Fin s m e)) * 2 powi q" by (simp add: u_def)
  show "0 \<le> units q (Fin s m e)" using m0 pow2_pos [of "e - q"] pow2_pos [of "q - e"]
    by (simp add: units_def pos_imp_zdiv_nonneg_iff)
qed

lemma on_grid_eq:
  assumes "on_grid q a"
  shows "a = round_ratio False (units q a) 1 q \<and> 0 \<le> units q a"
proof -
  from assms obtain m e where a: "a = Fin False m e" by (cases a) (auto simp add: on_grid_def)
  from assms a have c: "0 \<le> m" "m < 2 ^ 53" "- 1074 \<le> e" "e \<le> 971" "2 ^ 52 \<le> m \<or> e = - 1074"
    by (simp_all add: on_grid_def is_float64_def)
  from on_grid_value [of q False m e] assms a
  have v: "real_of_int m * 2 powi e = real_of_int (units q a) * 2 powi q" and u0: "0 \<le> units q a" by simp_all
  show ?thesis
  proof (cases "m = 0")
    case True
    with v have "real_of_int (units q a) * 2 powi q = 0" by simp
    then have "units q a = 0" using powi_pos2 [of q] by simp
    then show ?thesis using True c a by (simp add: round_ratio_def)
  next
    case False
    with c have mp: "0 < m" by simp
    have up: "0 < units q a"
    proof (rule ccontr)
      assume "\<not> 0 < units q a"
      with u0 have "units q a = 0" by simp
      with v have "real_of_int m * 2 powi e = 0" by simp
      then show False using mp powi_pos2 [of e] by simp
    qed
    have "round_ratio False (units q a) 1 q = Fin False m e"
      using up mp c(2-) by (rule round_ratio_exact) (simp add: v)
    then show ?thesis using a u0 by simp
  qed
qed

lemma foldl_fadd_exact:
  assumes "\<forall>p \<in> set ps. on_grid q p" "0 \<le> u" "u + sum_list (map (units q) ps) < 2 ^ 53"
    "- 1074 \<le> q" "q \<le> 971"
  shows "foldl fadd (round_ratio False u 1 q) ps = round_ratio False (u + sum_list (map (units q) ps)) 1 q"
  using assms
proof (induction ps arbitrary: u)
  case Nil
  then show ?case by simp
next
  case (Cons p ps)
  from Cons.prems(1) have g: "on_grid q p" by simp
  from on_grid_eq [OF g] have p: "p = round_ratio False (units q p) 1 q" and u0: "0 \<le> units q p" by simp_all
  have nn: "0 \<le> sum_list (map (units q) ps)"
    using Cons.prems(1) on_grid_eq by (intro sum_list_nonneg) auto
  have s1: "u + units q p < 2 ^ 53" using Cons.prems(3) nn by simp
  have "fadd (round_ratio False u 1 q) p = fadd (round_ratio False u 1 q) (round_ratio False (units q p) 1 q)"
    using p by simp
  also have "\<dots> = round_ratio False (u + units q p) 1 q"
    using Cons.prems(2) u0 s1 Cons.prems(4,5) by (rule fadd_exact)
  finally have st: "fadd (round_ratio False u 1 q) p = round_ratio False (u + units q p) 1 q" .
  have "foldl fadd (round_ratio False (u + units q p) 1 q) ps
        = round_ratio False (u + units q p + sum_list (map (units q) ps)) 1 q"
    using Cons.prems u0 by (intro Cons.IH) (simp_all add: add.assoc)
  then show ?case by (simp add: st add.assoc)
qed

lemma sum_exact:
  assumes "\<forall>p \<in> set ps. on_grid q p" "sum_list (map (units q) ps) < 2 ^ 53" "- 1074 \<le> q" "q \<le> 971"
  shows "foldl fadd fzero ps = round_ratio False (sum_list (map (units q) ps)) 1 q"
proof -
  have z: "fzero = round_ratio False 0 1 q" by (simp add: fzero_def round_ratio_def)
  show ?thesis using foldl_fadd_exact [of ps q 0] assms by (simp add: z)
qed

lemma fadd_zero_left:
  assumes "is_float64 (Fin t m e)" "0 < m"
  shows "fadd (Fin s 0 (- 1074)) (Fin t m e) = Fin t m e"
proof -
  from assms have c: "m < 2 ^ 53" "- 1074 \<le> e" "e \<le> 971" "2 ^ 52 \<le> m \<or> e = - 1074"
    by (simp_all add: is_float64_def)
  define i where "i = m * pow2 (e + 1074)"
  have ip: "0 < i" using assms(2) pow2_pos [of "e + 1074"] by (simp add: i_def)
  have mn: "min (- 1074) e = - 1074" using c(2) by simp
  have f: "fadd (Fin s 0 (- 1074)) (Fin t m e) = round_ratio t i 1 (- 1074)"
  proof -
    have nz: "m \<noteq> 0" "pow2 (e + 1074) \<noteq> 0" "\<not> m * pow2 (e + 1074) < 0" "0 \<le> m" "0 \<le> pow2 (e + 1074)"
      using ip assms(2) pow2_pos [of "e + 1074"] by (simp_all add: i_def not_less)
    show ?thesis using nz ip by (cases t) (simp_all add: Let_def smant_def mn i_def abs_mult)
  qed
  have "real_of_int i = real_of_int m * 2 powi (e + 1074)" using c(2) by (simp add: i_def pow2_real)
  then have "real_of_int i * 2 powi (- 1074) = real_of_int m * (2 powi (e + 1074) * 2 powi (- 1074))"
    by (simp only: mult.assoc)
  also have "2 powi (e + 1074) * 2 powi (- 1074) = (2::real) powi e"
    using powi_add2 [of "e + 1074" "- 1074"] by simp
  finally have v: "real_of_int i * 2 powi (- 1074) = real_of_int m * 2 powi e" .
  have "round_ratio t i 1 (- 1074) = Fin t m e"
    using ip assms(2) c v by (rule round_ratio_exact)
  then show ?thesis by (simp only: f)
qed

lemma fadd_fzero:
  assumes "is_float64 a"
  shows "fadd fzero a = (case a of Fin s m e \<Rightarrow> if m = 0 then fzero else a | _ \<Rightarrow> a)"
proof (cases a)
  case NaN
  then show ?thesis by (simp add: fzero_def)
next
  case (Infty s)
  then show ?thesis by (simp add: fzero_def)
next
  case (Fin s m e)
  show ?thesis
  proof (cases "m = 0")
    case True
    with assms Fin have "e = - 1074" by (simp add: is_float64_def)
    with True Fin show ?thesis by (simp add: fzero_def Let_def smant_def)
  next
    case False
    with assms Fin have "0 < m" by (simp add: is_float64_def)
    with assms Fin have "fadd (Fin False 0 (- 1074)) (Fin s m e) = Fin s m e"
      by (intro fadd_zero_left) simp_all
    with False Fin show ?thesis by (simp only: fzero_def float64.case if_False)
  qed
qed

lemma fadd_zero_absorbed:
  assumes "is_float64 b"
  shows "fadd (fadd fzero b) (Fin s 0 (- 1074)) = fadd fzero b"
proof (cases b)
  case NaN
  then show ?thesis by (simp add: fzero_def)
next
  case (Infty t)
  then show ?thesis by (simp add: fzero_def)
next
  case (Fin t m e)
  show ?thesis
  proof (cases "m = 0")
    case True
    then have "fadd fzero b = fzero" using fadd_fzero [OF assms] Fin by simp
    then show ?thesis by (simp add: fzero_def Let_def smant_def)
  next
    case False
    then have e: "fadd fzero b = b" using fadd_fzero [OF assms] Fin by simp
    from False assms Fin have "0 < m" by (simp add: is_float64_def)
    with assms Fin have "fadd (Fin s 0 (- 1074)) (Fin t m e) = Fin t m e"
      by (intro fadd_zero_left) simp_all
    moreover have "fadd (Fin t m e) (Fin s 0 (- 1074)) = fadd (Fin s 0 (- 1074)) (Fin t m e)"
      by (rule fadd_commute)
    ultimately have "fadd b (Fin s 0 (- 1074)) = b" using Fin by (simp only:)
    then show ?thesis by (simp only: e)
  qed
qed

lemma sum_of_two_commute:
  assumes "is_float64 a" "is_float64 b"
  shows "fadd (fadd fzero a) b = fadd (fadd fzero b) a"
proof (cases "\<exists>s. a = Fin s 0 (- 1074)")
  case True
  then obtain s where a: "a = Fin s 0 (- 1074)" by blast
  have "fadd fzero a = fzero" using fadd_fzero [OF assms(1)] a by simp
  then show ?thesis using fadd_zero_absorbed [OF assms(2), of s] a by simp
next
  case na: False
  show ?thesis
  proof (cases "\<exists>t. b = Fin t 0 (- 1074)")
    case True
    then obtain t where b: "b = Fin t 0 (- 1074)" by blast
    have "fadd fzero b = fzero" using fadd_fzero [OF assms(2)] b by simp
    then show ?thesis using fadd_zero_absorbed [OF assms(1), of t] b by simp
  next
    case nb: False
    have ea: "fadd fzero a = a"
    proof (cases a)
      case (Fin s m e)
      with na assms(1) have "m \<noteq> 0" by (auto simp add: is_float64_def)
      then show ?thesis using fadd_fzero [OF assms(1)] Fin by simp
    qed (use fadd_fzero [OF assms(1)] in simp_all)
    have eb: "fadd fzero b = b"
    proof (cases b)
      case (Fin s m e)
      with nb assms(2) have "m \<noteq> 0" by (auto simp add: is_float64_def)
      then show ?thesis using fadd_fzero [OF assms(2)] Fin by simp
    qed (use fadd_fzero [OF assms(2)] in simp_all)
    show ?thesis by (simp only: ea eb fadd_commute [of a])
  qed
qed

subsection \<open>The loop\<close>

lemma average_loop_eq:
  "average_loop rs (acc, cnt) =
     (foldl fadd acc (map price (filter (\<lambda>r. err r = None) rs)),
      cnt + int (length (filter (\<lambda>r. err r = None) rs)))"
  by (induction rs arbitrary: acc cnt) auto

lemma averageUSD_eq:
  "averageUSD results =
     (if successful_prices results = [] then Inl NoValidPrices
      else Inr (mean_of (successful_prices results)))"
  by (simp add: averageUSD_def average_loop_eq successful_prices_def mean_of_def)

lemma goroutine_None: "goroutine w f = None \<longleftrightarrow> panics w f"
  by (simp add: goroutine_def panics_def split: outcome.splits)

lemma goroutine_err:
  "\<not> panics w f \<Longrightarrow> err (the (goroutine w f)) = None \<longleftrightarrow> \<not> fails w f"
  by (simp add: goroutine_def panics_def fails_def split: outcome.splits)

lemma length_filter_mset:
  assumes "mset xs = mset ys"
  shows "length (filter P xs) = length (filter P ys)"
proof -
  from assms have "mset (filter P xs) = mset (filter P ys)" by simp
  then show ?thesis by (rule mset_eq_length)
qed

lemma successful_prices_mset:
  assumes "mset xs = mset ys"
  shows "mset (successful_prices xs) = mset (successful_prices ys)"
proof -
  from assms have "mset (filter (\<lambda>r. err r = None) xs) = mset (filter (\<lambda>r. err r = None) ys)"
    by simp
  then have "image_mset price (mset (filter (\<lambda>r. err r = None) xs)) =
             image_mset price (mset (filter (\<lambda>r. err r = None) ys))"
    by simp
  then show ?thesis by (simp add: successful_prices_def)
qed

text \<open>
  The mean of prices whose sums are exact does not depend on their order; nor does the
  mean of at most two prices, or of a list whose first two prices change places.
\<close>

lemma mean_of_two:
  assumes "is_float64 a" "is_float64 b"
  shows "mean_of (a # b # ps) = mean_of (b # a # ps)"
  using sum_of_two_commute [OF assms] by (simp add: mean_of_def)

lemma mean_of_exact:
  assumes "mset ps = mset ps'" "\<forall>p \<in> set ps. on_grid q p"
    "sum_list (map (units q) ps) < 2 ^ 53" "- 1074 \<le> q" "q \<le> 971"
  shows "mean_of ps = mean_of ps'"
proof -
  have s: "set ps' = set ps" using assms(1) by (metis mset_eq_setD)
  have "mset (map (units q) ps) = mset (map (units q) ps')" using assms(1) by simp
  then have u: "sum_list (map (units q) ps) = sum_list (map (units q) ps')"
    by (metis sum_mset_sum_list)
  have l: "length ps = length ps'" using assms(1) by (rule mset_eq_length)
  have "foldl fadd fzero ps = round_ratio False (sum_list (map (units q) ps)) 1 q"
    using assms(2-5) by (rule sum_exact)
  moreover have "foldl fadd fzero ps' = round_ratio False (sum_list (map (units q) ps')) 1 q"
    using assms(2-5) s u by (intro sum_exact) simp_all
  ultimately show ?thesis using u l by (simp add: mean_of_def)
qed

lemma mean_of_at_most_two:
  assumes "mset ps = mset ps'" "length ps \<le> 2" "\<forall>p \<in> set ps. is_float64 p"
  shows "mean_of ps = mean_of ps'"
proof -
  have l: "length ps' = length ps" using assms(1) by (metis mset_eq_length)
  show ?thesis
  proof (cases ps)
    case Nil
    then show ?thesis using assms(1) by simp
  next
    case (Cons a qs)
    note c1 = Cons
    show ?thesis
    proof (cases qs)
      case Nil
      with c1 assms(1) have "mset ps' = {#a#}" by simp
      then have "ps' = [a]" by (simp add: mset_single_iff_right)
      then show ?thesis using c1 Nil by simp
    next
      case (Cons b rs)
      with c1 assms(2) have ps: "ps = [a, b]" by simp
      with l obtain c d where ps': "ps' = [c, d]"
        by (cases ps'; cases "tl ps'") auto
      from assms(1) ps ps' have "{#c, d#} = {#a, b#}" by simp
      then have "c = a \<and> d = b \<or> c = b \<and> d = a"
        by (auto simp add: add_eq_conv_ex)
      then show ?thesis using ps ps' assms(3) mean_of_two [of a b "[]"] by auto
    qed
  qed
qed

lemma missing_or_zero_rate: "missing_or_zero data c = feq (rate data c) fzero"
  by (simp add: missing_or_zero_def rate_def index_def feq_fzero_fzero split: option.splits)

subsection \<open>What the adapters do reject\<close>

text \<open>
  A body that is not JSON is a decoding error for each of the five adapters, a Bitfinex
  list of fewer than seven numbers is one, and a price \<^verbatim>\<open>FetchPrice\<close> returns is never
  \<^verbatim>\<open><= 0\<close>.
\<close>

lemma malformed_body_fails:
  assumes "n \<in> {''CoinGecko'', ''Coinbase'', ''Bitstamp'', ''Kraken'', ''Bitfinex''}"
  shows "parseResponse (NewAPI n u) Malformed p i = Err SyntaxError"
  using assms by (auto simp: parseResponse_def NewAPI_def Unmarshal_def)

lemma bitfinex_short_list_fails:
  assumes "Unmarshal (unmarshal_slice unmarshal_float64 fzero) d ([], 0) = Inr (arr, n)"
    and "n < 7"
  shows "FetchPrice (NewAPI ''Bitfinex'' u) (Response 200 (Body d)) i
         = Err (ParsingFailed InvalidDataLength)"
  using assms by (simp add: FetchPrice_def parseResponse_def NewAPI_def)

lemma bitfinex_six_numbers_fails:
  "FetchPrice (NewAPI ''Bitfinex'' u)
     (ok200 (JArr [JNum False 1 0, JNum False 2 0, JNum False 3 0, JNum False 4 0,
                   JNum False 5 0, JNum False 6 0])) i
   = Err (ParsingFailed InvalidDataLength)"
proof -
  have "Unmarshal (unmarshal_slice unmarshal_float64 fzero)
          (Json (JArr [JNum False 1 0, JNum False 2 0, JNum False 3 0, JNum False 4 0,
                       JNum False 5 0, JNum False 6 0])) ([], 0)
        = Inr ([float64_of_int 1, float64_of_int 2, float64_of_int 3, float64_of_int 4,
                float64_of_int 5, float64_of_int 6], 6)"
    by code_simp
  then show ?thesis
    by (simp add: FetchPrice_def parseResponse_def NewAPI_def ok200_def)
qed

lemma fetched_price_not_le_zero:
  assumes "FetchPrice a r i = Ok p"
  shows "\<not> fle p fzero"
  using assms
  by (auto simp: FetchPrice_def split: reply.splits body.splits outcome.splits if_splits)

text \<open>
  The converter takes a response with status 500 as it takes one with status 200; the
  adapter that reads the same kind of body rejects it.
\<close>

lemma status_500_rates_used:
  "convertToAUD (float64_of_int 3000)
     (Response 500 (Body (Json (JObj [(''ethereum'',
        JObj [(''usd'', JNum False 3000 0), (''aud'', JNum False 4500 0)])]))))
   = Inr (float64_of_int 4500)"
  by code_simp

text \<open>
  The Kraken branch panics whenever the entry the loop starts with has an empty list.
\<close>

lemma kraken_empty_entry_panics:
  assumes "Unmarshal
             (unmarshal_struct ''result''
                (unmarshal_map (unmarshal_struct ''c'' (unmarshal_slice unmarshal_string []))
                   ([], 0)))
             d [] = Inr result"
    and "result \<noteq> []"
    and "snd (snd (result ! (i mod length result))) = 0"
  shows "FetchPrice (NewAPI ''Kraken'' u) (Response 200 (Body d)) i = Panic"
  using assms
  by (cases "snd (result ! (i mod length result))")
     (simp add: FetchPrice_def parseResponse_def NewAPI_def)

subsection \<open>The whole pipeline on examples\<close>

text \<open>
  The example of the specification: the mean of 2990, 3010 and 3000 is 3000, and the
  rates 3000 and 4500 make it 4500.
\<close>

lemma example_world_price:
  "fetchAndCalculatePrice example_world = Returned (Inr (float64_of_int 4500))"
  by code_simp

text \<open>
  With the quotes 3000.1, 3000.2 and 3000.3 the price the program returns depends on
  the order in which the goroutines send: 3000.1999999999994 when they send in the
  order of the list, 3000.2000000000003 when the scheduler lets the third goroutine run
  first, then the second, then the first.
\<close>

lemma price_depends_on_send_order:
  "fetchAndCalculatePrice (tenths_world\<lparr>sched := []\<rparr>)
     = Returned (Inr (Fin False 6597509571307109 (- 41)))"
  "fetchAndCalculatePrice (tenths_world\<lparr>sched := [0, 0, 0, 0, 0, 0, 2, 2, 2, 1, 1, 1]\<rparr>)
     = Returned (Inr (Fin False 6597509571307111 (- 41)))"
  by code_simp+

section \<open>The claims\<close>

text \<open>
  C1. For every collection of outcomes with at least one success, the aggregator's
  mean is the sum of the successful prices divided by their number, the failed outcomes
  being ignored: \<open>averageUSD\<close> is \<open>mean_of\<close> of the successful prices, and the whole
  function converts that mean. Sum and quotient are float64 operations, the sum taken
  in the order of the collection.
\<close>

theorem aggregator_mean:
  assumes "\<exists>r \<in> set results. err r = None"
  shows "averageUSD results = Inr (mean_of (successful_prices results))
       \<and> calculateAverageAndConvertToAUD results rates =
           convertToAUD (mean_of (successful_prices results)) rates"
proof -
  from assms have "filter (\<lambda>r. err r = None) results \<noteq> []"
    by (simp add: filter_empty_conv)
  then have "successful_prices results \<noteq> []"
    by (simp add: successful_prices_def)
  then have "averageUSD results = Inr (mean_of (successful_prices results))"
    by (simp add: averageUSD_eq)
  then show ?thesis
    by (simp add: calculateAverageAndConvertToAUD_def)
qed

text \<open>
  Five sources, three with the prices 2990, 3010 and 3000 and two failed: the mean is
  3000.
\<close>

theorem aggregator_mean_witness:
  "averageUSD
     [quoted ''CoinGecko'' (float64_of_int 2990), failed ''Coinbase'' RequestFailed,
      quoted ''Bitstamp'' (float64_of_int 3010), failed ''Kraken'' (NonOKStatus 503),
      quoted ''Bitfinex'' (float64_of_int 3000)] = Inr (float64_of_int 3000)"
proof -
  let ?rs = "[quoted ''CoinGecko'' (float64_of_int 2990), failed ''Coinbase'' RequestFailed,
      quoted ''Bitstamp'' (float64_of_int 3010), failed ''Kraken'' (NonOKStatus 503),
      quoted ''Bitfinex'' (float64_of_int 3000)]"
  have h: "\<exists>r \<in> set ?rs. err r = None"
    by (simp add: quoted_def)
  have e: "mean_of (successful_prices ?rs) = float64_of_int 3000"
    by code_simp
  from aggregator_mean [OF h] e show ?thesis by simp
qed

text \<open>
  C2. For every mean price and every exchange-rate response that decodes, the
  converter returns the mean times \<open>audRate / usdRate\<close>, and fails with
  \<open>InvalidExchangeRates\<close> when either rate is zero or missing.
\<close>

theorem rate_converter:
  assumes "Decode (unmarshal_map (unmarshal_map unmarshal_float64 fzero) []) b [] = Inr data"
  shows "convertToAUD meanPrice (Response status b) =
           (if missing_or_zero data ''usd'' \<or> missing_or_zero data ''aud''
            then Inl InvalidExchangeRates
            else Inr (fmul meanPrice (fdiv (rate data ''aud'') (rate data ''usd''))))"
  using assms by (simp add: convertToAUD_def missing_or_zero_rate rate_def Let_def)

text \<open>
  With the rates 3000 and 4500 a mean of 3000 becomes 4500; with a target rate of 0, or
  none, the conversion fails.
\<close>

theorem rate_converter_witness:
  "fdiv (float64_of_int 4500) (float64_of_int 3000) = dec_to_float64 False 15 (- 1)
 \<and> convertToAUD (float64_of_int 3000)
     (ok200 (JObj [(''ethereum'', JObj [(''usd'', JNum False 3000 0), (''aud'', JNum False 4500 0)])]))
   = Inr (float64_of_int 4500)
 \<and> convertToAUD (float64_of_int 3000)
     (ok200 (JObj [(''ethereum'', JObj [(''usd'', JNum False 3000 0), (''aud'', JNum False 0 0)])]))
   = Inl InvalidExchangeRates
 \<and> convertToAUD (float64_of_int 3000)
     (ok200 (JObj [(''ethereum'', JObj [(''usd'', JNum False 3000 0)])]))
   = Inl InvalidExchangeRates"
proof -
  let ?dec = "unmarshal_map (unmarshal_map unmarshal_float64 fzero) []"
  let ?usd = "float64_of_int 3000"
  let ?both = "[(''ethereum'', [(''usd'', float64_of_int 3000), (''aud'', float64_of_int 4500)])]"
  have d1: "Decode ?dec (Body (Json (JObj [(''ethereum'',
                JObj [(''usd'', JNum False 3000 0), (''aud'', JNum False 4500 0)])]))) []
            = Inr ?both"
    by code_simp
  have d2: "Decode ?dec (Body (Json (JObj [(''ethereum'',
                JObj [(''usd'', JNum False 3000 0), (''aud'', JNum False 0 0)])]))) []
            = Inr [(''ethereum'', [(''usd'', float64_of_int 3000), (''aud'', fzero)])]"
    by code_simp
  have d3: "Decode ?dec (Body (Json (JObj [(''ethereum'', JObj [(''usd'', JNum False 3000 0)])]))) []
            = Inr [(''ethereum'', [(''usd'', float64_of_int 3000)])]"
    by code_simp
  have m1: "\<not> missing_or_zero ?both ''usd''" "\<not> missing_or_zero ?both ''aud''"
    by code_simp+
  have m2: "missing_or_zero [(''ethereum'', [(''usd'', float64_of_int 3000), (''aud'', fzero)])] ''aud''"
    by code_simp
  have m3: "missing_or_zero [(''ethereum'', [(''usd'', float64_of_int 3000)])] ''aud''"
    by code_simp
  have r: "fmul (float64_of_int 3000) (fdiv (rate ?both ''aud'') (rate ?both ''usd''))
           = float64_of_int 4500"
    by code_simp
  have q: "fdiv (float64_of_int 4500) (float64_of_int 3000) = dec_to_float64 False 15 (- 1)"
    by code_simp
  show ?thesis
    using rate_converter [OF d1, of ?usd 200] rate_converter [OF d2, of ?usd 200]
      rate_converter [OF d3, of ?usd 200] m1 m2 m3 r q
    by (simp add: ok200_def)
qed

text \<open>
  C3. The claim is that for \<open>N\<close> adapters the orchestrator returns exactly \<open>N\<close> outcomes,
  one per adapter, none being lost. The program loses the outcome of an adapter whose
  \<^verbatim>\<open>FetchPrice\<close> panics: the deferred \<^verbatim>\<open>wg.Done()\<close> of that goroutine runs without a
  send, so \<^verbatim>\<open>wg.Wait()\<close> can return, and the function read the channel and return,
  before the runtime ends the process. In \<open>lost_world\<close>, of the five fetchers three
  succeed, Coinbase fails and Kraken panics (on the ticker of C5): the function returns
  the price 4500, computed from four outcomes, none of them Kraken's, and the process
  ends after that; under another schedule it ends before the function returns.
\<close>

theorem orchestrator_loses_outcome:
  "length fetchers = 5
 \<and> map (\<lambda>f. (succeeds lost_world f, fails lost_world f, panics lost_world f)) fetchers
     = [(True, False, False), (False, True, False), (True, False, False),
        (False, False, True), (True, False, False)]
 \<and> map source (collected (run_to_end lost_world fetchers))
     = [''CoinGecko'', ''Coinbase'', ''Bitstamp'', ''Bitfinex'']
 \<and> map err (collected (run_to_end lost_world fetchers))
     = [None, Some RequestFailed, None, None]
 \<and> fetchAndCalculatePrice lost_world = Returned (Inr (float64_of_int 4500))
 \<and> dead (run_to_end lost_world fetchers)
 \<and> fetchAndCalculatePrice (lost_world\<lparr>sched := []\<rparr>) = Crashed"
proof -
  have n: "length fetchers = 5"
    by code_simp
  have o: "map (\<lambda>f. (succeeds lost_world f, fails lost_world f, panics lost_world f)) fetchers
     = [(True, False, False), (False, True, False), (True, False, False),
        (False, False, True), (True, False, False)]"
    by code_simp
  have s: "map source (collected (run_to_end lost_world fetchers))
     = [''CoinGecko'', ''Coinbase'', ''Bitstamp'', ''Bitfinex'']"
    by code_simp
  have e: "map err (collected (run_to_end lost_world fetchers))
     = [None, Some RequestFailed, None, None]"
    by code_simp
  have r: "fetchAndCalculatePrice lost_world = Returned (Inr (float64_of_int 4500))"
    by code_simp
  have d: "dead (run_to_end lost_world fetchers)"
    by code_simp
  have c: "fetchAndCalculatePrice (lost_world\<lparr>sched := []\<rparr>) = Crashed"
    by code_simp
  from n o s e r d c show ?thesis by (intro conjI)
qed

text \<open>
  C4. On a collection of outcomes that is empty or holds failures only, the
  aggregation fails with \<open>NoValidPrices\<close>, whatever the exchange-rate source would
  answer: no price is returned.
\<close>

theorem no_valid_prices:
  assumes "\<forall>r \<in> set results. err r \<noteq> None"
  shows "averageUSD results = Inl NoValidPrices
       \<and> calculateAverageAndConvertToAUD results rates = Inl NoValidPrices"
proof -
  from assms have "filter (\<lambda>r. err r = None) results = []"
    by (simp add: filter_empty_conv)
  then have "averageUSD results = Inl NoValidPrices"
    by (simp add: averageUSD_eq successful_prices_def)
  then show ?thesis
    by (simp add: calculateAverageAndConvertToAUD_def)
qed

theorem no_valid_prices_witness:
  "calculateAverageAndConvertToAUD [] GetError = Inl NoValidPrices
 \<and> calculateAverageAndConvertToAUD
       [failed ''CoinGecko'' RequestFailed, failed ''Kraken'' (NonOKStatus 503)]
       (ok200 (JObj [(''ethereum'', JObj [(''usd'', JNum False 3000 0), (''aud'', JNum False 4500 0)])]))
     = Inl NoValidPrices"
  using no_valid_prices [of "[]" GetError]
    no_valid_prices [of "[failed ''CoinGecko'' RequestFailed, failed ''Kraken'' (NonOKStatus 503)]"]
  by (simp add: failed_def)

text \<open>
  C5. The claim is that no payload makes an adapter crash, and that the Kraken decoder
  fails on a response whose price list is empty. On the well-formed ticker
  \<^verbatim>\<open>{"error":[],"result":{"XETHZUSD":{"c":[]}}}\<close> the Kraken branch of
  \<^verbatim>\<open>parseResponse\<close> indexes the empty list and panics, whatever the status-200 reply's
  other data; \<^verbatim>\<open>FetchPrice\<close> panics with it, and the program ends without a result
  (also when the scheduler lets the function return before the runtime ends the
  process: then it has returned an error, all other requests failing in
  \<open>kraken_world\<close>).
\<close>

theorem kraken_empty_list_panics:
  "parseResponse (NewAPI ''Kraken'' u) (Json kraken_empty) p i = Panic
 \<and> FetchPrice (NewAPI ''Kraken'' u) (ok200 kraken_empty) i = Panic
 \<and> fetchAndCalculatePrice kraken_world = Crashed
 \<and> fetchAndCalculatePrice (kraken_world\<lparr>sched := return_first\<rparr>) = Returned (Inl NoValidPrices)
 \<and> dead (run_to_end (kraken_world\<lparr>sched := return_first\<rparr>) fetchers)"
proof -
  have d: "Unmarshal
             (unmarshal_struct ''result''
                (unmarshal_map (unmarshal_struct ''c'' (unmarshal_slice unmarshal_string []))
                   ([], 0)))
             (Json kraken_empty) [] = Inr [(''XETHZUSD'', ([], 0))]"
    by code_simp
  have p: "parseResponse (NewAPI ''Kraken'' u) (Json kraken_empty) q i = Panic" for q
    by (simp add: parseResponse_def NewAPI_def d)
  then have f: "FetchPrice (NewAPI ''Kraken'' u) (ok200 kraken_empty) i = Panic"
    by (simp add: FetchPrice_def ok200_def)
  have c: "fetchAndCalculatePrice kraken_world = Crashed"
    by code_simp
  have r: "fetchAndCalculatePrice (kraken_world\<lparr>sched := return_first\<rparr>) = Returned (Inl NoValidPrices)"
    by code_simp
  have e: "dead (run_to_end (kraken_world\<lparr>sched := return_first\<rparr>) fetchers)"
    by code_simp
  from p f c r e show ?thesis by simp
qed

text \<open>
  C6, as the specification states it: the aggregator's result is the same for any two
  orderings of the same outcomes. It is not: the prices 3000.1, 3000.2 and 3000.3 give
  the mean 3000.1999999999994 in this order and 3000.2000000000003 in the reverse order,
  the float64 sum being rounded after each addition.
\<close>

theorem aggregator_order_counterexample:
  "mset [quoted ''A'' (dec_to_float64 False 30001 (- 1)), quoted ''B'' (dec_to_float64 False 30002 (- 1)),
         quoted ''C'' (dec_to_float64 False 30003 (- 1))]
   = mset [quoted ''C'' (dec_to_float64 False 30003 (- 1)), quoted ''B'' (dec_to_float64 False 30002 (- 1)),
           quoted ''A'' (dec_to_float64 False 30001 (- 1))]
 \<and> averageUSD [quoted ''A'' (dec_to_float64 False 30001 (- 1)), quoted ''B'' (dec_to_float64 False 30002 (- 1)),
               quoted ''C'' (dec_to_float64 False 30003 (- 1))]
     = Inr (Fin False 6597509571307109 (- 41))
 \<and> averageUSD [quoted ''C'' (dec_to_float64 False 30003 (- 1)), quoted ''B'' (dec_to_float64 False 30002 (- 1)),
               quoted ''A'' (dec_to_float64 False 30001 (- 1))]
     = Inr (Fin False 6597509571307111 (- 41))"
proof -
  have "averageUSD [quoted ''A'' (dec_to_float64 False 30001 (- 1)),
                    quoted ''B'' (dec_to_float64 False 30002 (- 1)),
                    quoted ''C'' (dec_to_float64 False 30003 (- 1))]
        = Inr (Fin False 6597509571307109 (- 41))"
    by code_simp
  moreover
  have "averageUSD [quoted ''C'' (dec_to_float64 False 30003 (- 1)),
                    quoted ''B'' (dec_to_float64 False 30002 (- 1)),
                    quoted ''A'' (dec_to_float64 False 30001 (- 1))]
        = Inr (Fin False 6597509571307111 (- 41))"
    by code_simp
  ultimately show ?thesis by simp
qed

text \<open>
  C6, amended. Under any permutation of the outcomes the successful prices are the same
  collection (so their number is the same) and the aggregation fails for the one
  ordering exactly when it fails for the other. The mean is the same for the two
  orderings

    \<^item> when they list the successful prices in the same order, as when only failed
      outcomes change places;
    \<^item> when there are at most two successful prices;
    \<^item> when they differ in the first two successful prices changing places;
    \<^item> when the sums are exact: the successful prices are whole multiples of one power
      of two \<open>2^q\<close> (whole numbers of dollars for \<open>q = 0\<close>, as 2990, 3010 and 3000)
      and add up to less than \<open>2^53\<close> of these units,

  the prices being float64 numbers. (The counterexample has three prices that are not
  multiples of a power of two they could be added in exactly.)
\<close>

theorem aggregator_order:
  assumes "mset xs = mset ys"
  shows "mset (successful_prices xs) = mset (successful_prices ys)
       \<and> (averageUSD xs = Inl NoValidPrices \<longleftrightarrow> averageUSD ys = Inl NoValidPrices)
       \<and> (successful_prices xs = successful_prices ys \<longrightarrow> averageUSD xs = averageUSD ys)
       \<and> (length (successful_prices xs) \<le> 2 \<and> (\<forall>p \<in> set (successful_prices xs). is_float64 p)
            \<longrightarrow> averageUSD xs = averageUSD ys)
       \<and> (\<forall>a b ps. successful_prices xs = a # b # ps \<and> successful_prices ys = b # a # ps
              \<and> is_float64 a \<and> is_float64 b
            \<longrightarrow> averageUSD xs = averageUSD ys)
       \<and> (\<forall>q. - 1074 \<le> q \<and> q \<le> 971 \<and> (\<forall>p \<in> set (successful_prices xs). on_grid q p)
              \<and> sum_list (map (units q) (successful_prices xs)) < 2 ^ 53
            \<longrightarrow> averageUSD xs = averageUSD ys)"
proof -
  have m: "mset (successful_prices xs) = mset (successful_prices ys)"
    using assms by (rule successful_prices_mset)
  then have e: "successful_prices xs = [] \<longleftrightarrow> successful_prices ys = []"
    by (metis mset_zero_iff)
  then have f: "averageUSD xs = Inl NoValidPrices \<longleftrightarrow> averageUSD ys = Inl NoValidPrices"
    by (simp add: averageUSD_eq)
  have same: "successful_prices xs = successful_prices ys \<longrightarrow> averageUSD xs = averageUSD ys"
    by (simp add: averageUSD_eq)
  have two: "length (successful_prices xs) \<le> 2 \<and> (\<forall>p \<in> set (successful_prices xs). is_float64 p)
            \<longrightarrow> averageUSD xs = averageUSD ys"
  proof (intro impI)
    assume h: "length (successful_prices xs) \<le> 2 \<and> (\<forall>p \<in> set (successful_prices xs). is_float64 p)"
    then have "mean_of (successful_prices xs) = mean_of (successful_prices ys)"
      by (intro mean_of_at_most_two [OF m]) simp_all
    then show "averageUSD xs = averageUSD ys" using e by (simp add: averageUSD_eq)
  qed
  have swap: "\<forall>a b ps. successful_prices xs = a # b # ps \<and> successful_prices ys = b # a # ps
              \<and> is_float64 a \<and> is_float64 b
            \<longrightarrow> averageUSD xs = averageUSD ys"
  proof (intro allI impI)
    fix a b ps
    assume h: "successful_prices xs = a # b # ps \<and> successful_prices ys = b # a # ps
              \<and> is_float64 a \<and> is_float64 b"
    then have "mean_of (a # b # ps) = mean_of (b # a # ps)" by (intro mean_of_two) simp_all
    then show "averageUSD xs = averageUSD ys" using h by (simp add: averageUSD_eq)
  qed
  have exact: "\<forall>q. - 1074 \<le> q \<and> q \<le> 971 \<and> (\<forall>p \<in> set (successful_prices xs). on_grid q p)
              \<and> sum_list (map (units q) (successful_prices xs)) < 2 ^ 53
            \<longrightarrow> averageUSD xs = averageUSD ys"
  proof (intro allI impI)
    fix q
    assume h: "- 1074 \<le> q \<and> q \<le> 971 \<and> (\<forall>p \<in> set (successful_prices xs). on_grid q p)
              \<and> sum_list (map (units q) (successful_prices xs)) < 2 ^ 53"
    then have "mean_of (successful_prices xs) = mean_of (successful_prices ys)"
      by (intro mean_of_exact [OF m, of q]) simp_all
    then show "averageUSD xs = averageUSD ys" using e by (simp add: averageUSD_eq)
  qed
  from m f same two swap exact show ?thesis by (intro conjI)
qed

theorem aggregator_order_witness:
  "averageUSD [quoted ''A'' (dec_to_float64 False 30001 (- 1)), failed ''B'' RequestFailed,
               quoted ''C'' (dec_to_float64 False 30003 (- 1))]
   = averageUSD [failed ''B'' RequestFailed, quoted ''A'' (dec_to_float64 False 30001 (- 1)),
               quoted ''C'' (dec_to_float64 False 30003 (- 1))]
 \<and> averageUSD [quoted ''A'' (dec_to_float64 False 30001 (- 1)), failed ''B'' RequestFailed,
               quoted ''C'' (dec_to_float64 False 30003 (- 1))]
   = averageUSD [quoted ''C'' (dec_to_float64 False 30003 (- 1)), failed ''B'' RequestFailed,
               quoted ''A'' (dec_to_float64 False 30001 (- 1))]
 \<and> averageUSD [quoted ''A'' (dec_to_float64 False 30001 (- 1)), quoted ''B'' (dec_to_float64 False 30002 (- 1)),
               quoted ''C'' (dec_to_float64 False 30003 (- 1))]
   = averageUSD [quoted ''B'' (dec_to_float64 False 30002 (- 1)), quoted ''A'' (dec_to_float64 False 30001 (- 1)),
               quoted ''C'' (dec_to_float64 False 30003 (- 1))]
 \<and> averageUSD [quoted ''A'' (float64_of_int 2990), failed ''B'' RequestFailed,
               quoted ''C'' (float64_of_int 3010), quoted ''D'' (float64_of_int 3000)]
   = averageUSD [quoted ''D'' (float64_of_int 3000), quoted ''C'' (float64_of_int 3010),
               failed ''B'' RequestFailed, quoted ''A'' (float64_of_int 2990)]"
proof -
  let ?a = "dec_to_float64 False 30001 (- 1)"
  let ?b = "dec_to_float64 False 30002 (- 1)"
  let ?c = "dec_to_float64 False 30003 (- 1)"
  let ?xs = "[quoted ''A'' ?a, failed ''B'' RequestFailed, quoted ''C'' ?c]"
  let ?ys = "[failed ''B'' RequestFailed, quoted ''A'' ?a, quoted ''C'' ?c]"
  let ?zs = "[quoted ''C'' ?c, failed ''B'' RequestFailed, quoted ''A'' ?a]"
  let ?us = "[quoted ''A'' ?a, quoted ''B'' ?b, quoted ''C'' ?c]"
  let ?vs = "[quoted ''B'' ?b, quoted ''A'' ?a, quoted ''C'' ?c]"
  let ?ws = "[quoted ''A'' (float64_of_int 2990), failed ''B'' RequestFailed,
              quoted ''C'' (float64_of_int 3010), quoted ''D'' (float64_of_int 3000)]"
  let ?ts = "[quoted ''D'' (float64_of_int 3000), quoted ''C'' (float64_of_int 3010),
              failed ''B'' RequestFailed, quoted ''A'' (float64_of_int 2990)]"
  have va: "is_float64 ?a" and vb: "is_float64 ?b" and vc: "is_float64 ?c"
    by code_simp+
  have h1: "mset ?xs = mset ?ys" by simp
  have s1: "successful_prices ?xs = successful_prices ?ys"
    by (simp add: successful_prices_def quoted_def failed_def)
  have h2: "mset ?xs = mset ?zs" by simp
  have s2: "successful_prices ?xs = [?a, ?c]"
    by (simp add: successful_prices_def quoted_def failed_def)
  have h3: "mset ?us = mset ?vs" by simp
  have s3: "successful_prices ?us = ?a # ?b # [?c]" "successful_prices ?vs = ?b # ?a # [?c]"
    by (simp_all add: successful_prices_def quoted_def failed_def)
  have h4: "mset ?ws = mset ?ts" by simp
  have s4: "successful_prices ?ws = [float64_of_int 2990, float64_of_int 3010, float64_of_int 3000]"
    by (simp add: successful_prices_def quoted_def failed_def)
  have g4: "on_grid 0 (float64_of_int 2990)" "on_grid 0 (float64_of_int 3010)"
    "on_grid 0 (float64_of_int 3000)"
    by code_simp+
  have u4: "units 0 (float64_of_int 2990) = 2990" "units 0 (float64_of_int 3010) = 3010"
    "units 0 (float64_of_int 3000) = 3000"
    by code_simp+
  have e1: "averageUSD ?xs = averageUSD ?ys"
    using aggregator_order [OF h1] s1 by blast
  have e2: "averageUSD ?xs = averageUSD ?zs"
    using aggregator_order [OF h2] s2 va vc by simp
  have e3: "averageUSD ?us = averageUSD ?vs"
    using aggregator_order [OF h3] s3 va vb by blast
  have "- 1074 \<le> (0::int) \<and> (0::int) \<le> 971 \<and> (\<forall>p \<in> set (successful_prices ?ws). on_grid 0 p)
              \<and> sum_list (map (units 0) (successful_prices ?ws)) < 2 ^ 53"
    by (simp add: s4 g4 u4)
  then have e4: "averageUSD ?ws = averageUSD ?ts"
    using aggregator_order [OF h4] by blast
  from e1 e2 e3 e4 show ?thesis by (intro conjI)
qed

text \<open>
  C7. The documented sample payloads decode to the documented values:
  \<^verbatim>\<open>{"ethereum":{"usd":3000.5}}\<close> to 3000.5 for CoinGecko, and
  \<^verbatim>\<open>[1,2,3,4,5,6,3100.25]\<close> to the number at index 6, 3100.25, for Bitfinex; both
  values are float64 numbers, decoded exactly.
\<close>

theorem sample_payloads_decode:
  "parseResponse (NewAPI ''CoinGecko'' u)
     (Json (JObj [(''ethereum'', JObj [(''usd'', JNum False 30005 (- 1))])])) p i
   = Ok (Fin False 6598169278283776 (- 41))
 \<and> represents (Fin False 6598169278283776 (- 41)) 30005 10
 \<and> parseResponse (NewAPI ''Bitfinex'' u)
     (Json (JArr [JNum False 1 0, JNum False 2 0, JNum False 3 0, JNum False 4 0, JNum False 5 0,
                  JNum False 6 0, JNum False 310025 (- 2)])) p i
   = Ok (Fin False 6817521848025088 (- 41))
 \<and> represents (Fin False 6817521848025088 (- 41)) 310025 100"
proof -
  have a: "Unmarshal (unmarshal_map (unmarshal_map unmarshal_float64 fzero) [])
             (Json (JObj [(''ethereum'', JObj [(''usd'', JNum False 30005 (- 1))])])) []
           = Inr [(''ethereum'', [(''usd'', Fin False 6598169278283776 (- 41))])]"
    by code_simp
  have e: "Unmarshal (unmarshal_slice unmarshal_float64 fzero)
             (Json (JArr [JNum False 1 0, JNum False 2 0, JNum False 3 0, JNum False 4 0,
                          JNum False 5 0, JNum False 6 0, JNum False 310025 (- 2)])) ([], 0)
           = Inr ([float64_of_int 1, float64_of_int 2, float64_of_int 3, float64_of_int 4,
                   float64_of_int 5, float64_of_int 6, Fin False 6817521848025088 (- 41)], 7)"
    by code_simp
  have r: "represents (Fin False 6598169278283776 (- 41)) 30005 10"
          "represents (Fin False 6817521848025088 (- 41)) 310025 100"
    by code_simp+
  show ?thesis
    by (simp add: parseResponse_def NewAPI_def a e r index_def)
qed

text \<open>
  C8. An adapter whose response has a status other than 200 fails with the error for
  that status, for every body: no price is returned.
\<close>

theorem non_200_status_fails:
  assumes "status \<noteq> 200"
  shows "FetchPrice a (Response status b) i = Err (NonOKStatus status)"
  using assms by (simp add: FetchPrice_def)

theorem non_200_status_fails_witness:
  "FetchPrice (NewAPI ''CoinGecko'' ''https://api.coingecko.com'')
     (Response 404 (Body (Json (JObj [(''ethereum'', JObj [(''usd'', JNum False 30005 (- 1))])])))) 0
   = Err (NonOKStatus 404)"
  using non_200_status_fails [of 404] by simp

text \<open>
  C9. The claim is that an outcome with a price has a strictly positive one.
  \<^verbatim>\<open>strconv.ParseFloat\<close> reads \<^verbatim>\<open>"NaN"\<close> as a NaN, and \<^verbatim>\<open>price <= 0\<close> is false for a NaN:
  on the Coinbase body \<^verbatim>\<open>{"data":{"amount":"NaN"}}\<close> with status 200, \<^verbatim>\<open>FetchPrice\<close>
  returns the price NaN without an error, which is not greater than zero.
\<close>

theorem nan_price_is_accepted:
  "FetchPrice (NewAPI ''Coinbase'' u)
     (ok200 (JObj [(''data'', JObj [(''amount'', JStr ''NaN'')])])) i = Ok NaN
 \<and> \<not> fle fzero NaN"
proof -
  have d: "Unmarshal (unmarshal_struct ''data'' (unmarshal_struct ''amount'' unmarshal_string))
             (Json (JObj [(''data'', JObj [(''amount'', JStr ''NaN'')])])) [] = Inr ''NaN''"
    by code_simp
  have n: "ParseFloat ''NaN'' = Inr NaN"
    by code_simp
  show ?thesis
    by (simp add: FetchPrice_def ok200_def parseResponse_def NewAPI_def d n fzero_def)
qed


end
